theory Spec2Isabelle
  imports Complex_Main
begin

section \<open>Data model\<close>

text \<open>
  The cart and product controllers of the e-commerce API, as functions on an explicit
  database state. Document ids and user ids are the strings the handlers compare with
  \<^verbatim>\<open>toString() ===\<close>. Quantities and counts are integers. A price is the rational
  value of the stored double. Where a handler computes with prices (the coupon
  arithmetic, the price comparison of the cart validation) every operation rounds its
  exact result to double precision, as defined next. The totals of the cart document
  and the rating average are kept as exact sums and quotients.
\<close>

type_synonym object_id = string

subsection \<open>Double-precision arithmetic\<close>

text \<open>A finite JavaScript number is a rational \<open>m * 2 ^ e\<close> with \<open>m < 2 ^ 53\<close> and
  \<open>e\<close> from -1074. An arithmetic operation returns the exact result rounded to the
  nearest such number, a tie going to the even \<open>m\<close>. \<open>None\<close> stands for a result
  that is not a finite number (\<^verbatim>\<open>Infinity\<close>, \<^verbatim>\<open>-Infinity\<close>, \<^verbatim>\<open>NaN\<close>), which JSON
  renders as \<^verbatim>\<open>null\<close>. The sign of zero is not modelled.\<close>

definition round_half_even :: "rat \<Rightarrow> int" where
  "round_half_even x =
     (let f = \<lfloor>x\<rfloor>; r = x - of_int f
      in if r < 1 / 2 then f else if 1 / 2 < r then f + 1 else if even f then f else f + 1)"

text \<open>Scaling a positive \<open>s\<close> with unit \<open>u\<close> (the product \<open>s * u\<close> stays the same)
  until \<open>s\<close> lies below \<open>2 ^ 53\<close>, and then up to \<open>2 ^ 52\<close> unless the unit
  reaches the smallest one, \<open>2 ^ -1074\<close>.\<close>

function scale_up :: "rat \<Rightarrow> rat \<Rightarrow> rat \<times> rat" where
  "scale_up s u = (if 2 ^ 53 \<le> s then scale_up (s / 2) (u * 2) else (s, u))"
  by pat_completeness auto
termination
proof (relation "measure (\<lambda>(s, u). nat \<lfloor>s\<rfloor>)")
  show "wf (measure (\<lambda>(s, u). nat \<lfloor>s\<rfloor>))" by simp
next
  fix s u :: rat
  assume a: "2 ^ 53 \<le> s"
  then have "s / 2 \<le> s - 1" by simp
  then have "\<lfloor>s / 2\<rfloor> \<le> \<lfloor>s - 1\<rfloor>" by (rule floor_mono)
  then have "\<lfloor>s / 2\<rfloor> < \<lfloor>s\<rfloor>" by simp
  moreover from a have "0 < \<lfloor>s\<rfloor>" by simp
  ultimately show "((s / 2, u * 2), (s, u)) \<in> measure (\<lambda>(s, u). nat \<lfloor>s\<rfloor>)"
    by simp
qed

function scale_down :: "rat \<Rightarrow> rat \<Rightarrow> rat \<times> rat" where
  "scale_down s u =
     (if s < 2 ^ 52 \<and> 1 / 2 ^ 1074 < u then scale_down (s * 2) (u / 2) else (s, u))"
  by pat_completeness auto
termination
proof (relation "measure (\<lambda>(s, u). nat \<lfloor>u * 2 ^ 1075\<rfloor>)")
  show "wf (measure (\<lambda>(s, u). nat \<lfloor>u * 2 ^ 1075\<rfloor>))" by simp
next
  fix s u :: rat
  assume "s < 2 ^ 52 \<and> 1 / 2 ^ 1074 < u"
  then have "1 / 2 ^ 1074 < u" by simp
  then have "1 < u * 2 ^ 1074" by (simp add: field_simps)
  then have b: "2 \<le> u * 2 ^ 1075" by simp
  then have "u * 2 ^ 1075 / 2 \<le> u * 2 ^ 1075 - 1" by simp
  then have "\<lfloor>u * 2 ^ 1075 / 2\<rfloor> \<le> \<lfloor>u * 2 ^ 1075 - 1\<rfloor>" by (rule floor_mono)
  then have "\<lfloor>u * 2 ^ 1075 / 2\<rfloor> < \<lfloor>u * 2 ^ 1075\<rfloor>" by simp
  moreover from b have "0 < \<lfloor>u * 2 ^ 1075\<rfloor>" by simp
  ultimately show "((s * 2, u / 2), (s, u)) \<in> measure (\<lambda>(s, u). nat \<lfloor>u * 2 ^ 1075\<rfloor>)"
    by simp
qed

declare scale_up.simps [simp del]
declare scale_down.simps [simp del]

text \<open>Rounding to double precision. A magnitude of \<open>2 ^ 1024 - 2 ^ 970\<close> or more
  rounds to an infinity.\<close>

definition to_double :: "rat \<Rightarrow> rat option" where
  "to_double x =
     (if 2 ^ 1024 - 2 ^ 970 \<le> \<bar>x\<bar> then None
      else if x = 0 then Some 0
      else case scale_up \<bar>x\<bar> 1 of
             (s1, u1) \<Rightarrow>
               (case scale_down s1 u1 of
                  (s, u) \<Rightarrow> Some (sgn x * of_int (round_half_even s) * u)))"

text \<open>\<^verbatim>\<open>a * b\<close>, \<^verbatim>\<open>a / b\<close> and \<^verbatim>\<open>a - b\<close> on finite numbers; a division by zero
  gives an infinity or \<^verbatim>\<open>NaN\<close>.\<close>

definition fmul :: "rat \<Rightarrow> rat \<Rightarrow> rat option" where
  "fmul a b = to_double (a * b)"

definition fdiv :: "rat \<Rightarrow> rat \<Rightarrow> rat option" where
  "fdiv a b = (if b = 0 then None else to_double (a / b))"

definition fsub :: "rat \<Rightarrow> rat \<Rightarrow> rat option" where
  "fsub a b = to_double (a - b)"

text \<open>The literal \<^verbatim>\<open>0.01\<close>: the double nearest to one hundredth.\<close>

definition literal_0_01 :: rat where
  "literal_0_01 = 5764607523034235 / 576460752303423488"

subsection \<open>Request values that may be strings\<close>

text \<open>The cart routes validate \<^verbatim>\<open>quantity\<close> with \<^verbatim>\<open>isInt\<close> and do not convert
  it, so the handler receives what the JSON body holds: a number, or a string of
  decimal digits with an optional sign.\<close>

datatype js_quantity = QNumber int | QString string

text \<open>\<^verbatim>\<open>reviewSchema\<close> and \<^verbatim>\<open>productSchema\<close> of \<^verbatim>\<open>models/Product.js\<close>
  (the fields the controllers read or write).\<close>

record review =
  r_user :: object_id
  r_rating :: rat
  r_comment :: string

record image =
  img_url :: string
  img_isMain :: bool

record product =
  p_id :: object_id
  p_name :: string
  p_description :: string
  p_price :: rat
  p_category :: object_id
  p_brand :: string
  p_tags :: "string list"
  p_images :: "image list"
  inventory_quantity :: int
  reviews :: "review list"
  ratings_average :: rat
  ratings_count :: nat
  isActive :: bool
  isFeatured :: bool

text \<open>A cart document: line items with a product reference, a quantity and the
  snapshot price, and the two stored totals. The document's \<^verbatim>\<open>user\<close> field is the
  key under which the database below holds it (one cart per user).\<close>

record cart_item =
  item_product :: object_id
  item_quantity :: int
  item_price :: rat

record cart =
  items :: "cart_item list"
  totalItems :: int
  totalPrice :: rat

text \<open>The database: the cart collection as a map from the user to that user's
  cart (\<open>carts db uid\<close> is \<^verbatim>\<open>Cart.findOne({user: uid})\<close>),
  the product collection in natural order, and a log of the writes performed, so that
  persisting is observable.\<close>

datatype db_write = CartCreated object_id | CartSaved object_id | ProductSaved object_id

record database =
  carts :: "object_id \<rightharpoonup> cart"
  products :: "product list"
  writes :: "db_write list"

text \<open>Every message of the handlers is a fixed text or a template literal; a
  constructor stands for the template and carries the interpolated numbers.\<close>

datatype msg =
    ProductNotFoundOrInactive      \<comment> \<open>\<^verbatim>\<open>'Product not found or inactive'\<close>\<close>
  | OnlyInStock int                \<comment> \<open>\<^verbatim>\<open>`Only ${n} items available in stock`\<close>\<close>
  | CannotAddOnlyMore js_quantity int \<comment> \<open>\<^verbatim>\<open>`Cannot add ${q} items. Only ${n} more available`\<close>\<close>
  | ItemAdded                      \<comment> \<open>\<^verbatim>\<open>'Item added to cart successfully'\<close>\<close>
  | QuantityAtLeastOne             \<comment> \<open>\<^verbatim>\<open>'Quantity must be at least 1'\<close>\<close>
  | CartNotFound                   \<comment> \<open>\<^verbatim>\<open>'Cart not found'\<close>\<close>
  | ItemNotInCart                  \<comment> \<open>\<^verbatim>\<open>'Item not found in cart'\<close>\<close>
  | CartUpdated                    \<comment> \<open>\<^verbatim>\<open>'Cart updated successfully'\<close>\<close>
  | ItemRemoved                    \<comment> \<open>\<^verbatim>\<open>'Item removed from cart successfully'\<close>\<close>
  | CartCleared                    \<comment> \<open>\<^verbatim>\<open>'Cart cleared successfully'\<close>\<close>
  | CartIsEmpty                    \<comment> \<open>\<^verbatim>\<open>'Cart is empty'\<close>\<close>
  | InvalidCouponCode              \<comment> \<open>\<^verbatim>\<open>'Invalid coupon code'\<close>\<close>
  | CouponApplied                  \<comment> \<open>\<^verbatim>\<open>'Coupon applied successfully'\<close>\<close>
  | ProductNoLongerAvailable       \<comment> \<open>\<^verbatim>\<open>'Product is no longer available'\<close>\<close>
  | OnlyAvailableRequested int int \<comment> \<open>\<^verbatim>\<open>`Only ${n} items available, but ${q} requested`\<close>\<close>
  | PriceHasChanged rat rat        \<comment> \<open>\<^verbatim>\<open>`Price has changed from $${old} to $${new}`\<close>\<close>
  | ProductNotFound                \<comment> \<open>\<^verbatim>\<open>'Product not found'\<close>\<close>
  | SearchQueryRequired            \<comment> \<open>\<^verbatim>\<open>'Search query is required'\<close>\<close>
  | ProductDeleted                 \<comment> \<open>\<^verbatim>\<open>'Product deleted successfully'\<close>\<close>
  | AlreadyReviewed                \<comment> \<open>\<^verbatim>\<open>'You have already reviewed this product'\<close>\<close>
  | ReviewAdded                    \<comment> \<open>\<^verbatim>\<open>'Review added successfully'\<close>\<close>
  | ProductUpdated                 \<comment> \<open>\<^verbatim>\<open>'Product updated successfully'\<close>\<close>
  | ValidationFailed               \<comment> \<open>\<^verbatim>\<open>error.message\<close> of the ValidationError a save or update throws\<close>
  | SerializationFailed            \<comment> \<open>\<^verbatim>\<open>error.message\<close> of the TypeError thrown inside \<^verbatim>\<open>res.json\<close>\<close>
  | QueryFailed                    \<comment> \<open>\<^verbatim>\<open>error.message\<close> of the error a rejected query throws\<close>

text \<open>The JSON envelope \<^verbatim>\<open>res.status(s).json({success, message, data})\<close>.\<close>

record 'a response =
  status :: nat
  success :: bool
  message :: "msg option"
  data :: "'a option"

definition failure :: "nat \<Rightarrow> msg \<Rightarrow> 'a response" where
  "failure s m = \<lparr>status = s, success = False, message = Some m, data = None\<rparr>"

definition ok :: "msg \<Rightarrow> 'a \<Rightarrow> 'a response" where
  "ok m d = \<lparr>status = 200, success = True, message = Some m, data = Some d\<rparr>"

subsection \<open>Collection primitives\<close>

text \<open>\<^verbatim>\<open>Array.prototype.findIndex\<close>: the first index whose element satisfies the
  predicate; the source's \<^verbatim>\<open>-1\<close> is \<open>None\<close>.\<close>

fun findIndex :: "('a \<Rightarrow> bool) \<Rightarrow> 'a list \<Rightarrow> nat option" where
  "findIndex P [] = None"
| "findIndex P (x # xs) = (if P x then Some 0 else map_option Suc (findIndex P xs))"

text \<open>\<^verbatim>\<open>arr.splice(i, 1)\<close>.\<close>

definition splice1 :: "nat \<Rightarrow> 'a list \<Rightarrow> 'a list" where
  "splice1 i xs = take i xs @ drop (Suc i) xs"

text \<open>\<^verbatim>\<open>Product.findById\<close>; it is also what \<^verbatim>\<open>populate('items.product')\<close> puts in
  place of a reference (\<open>None\<close> for Mongoose's \<^verbatim>\<open>null\<close>).\<close>

definition findById :: "product list \<Rightarrow> object_id \<Rightarrow> product option" where
  "findById ps i = find (\<lambda>p. p_id p = i) ps"

subsection \<open>Numbers and strings in a request\<close>

text \<open>Number to string, for the integers JavaScript prints in decimal (below
  \<open>10 ^ 21\<close> in magnitude).\<close>

fun show_nat :: "nat \<Rightarrow> string" where
  "show_nat n =
     (if n < 10 then [''0123456789'' ! n]
      else show_nat (n div 10) @ [''0123456789'' ! (n mod 10)])"

declare show_nat.simps [simp del]

definition show_int :: "int \<Rightarrow> string" where
  "show_int i = (if i < 0 then CHR ''-'' # show_nat (nat (- i)) else show_nat (nat i))"

text \<open>String to number (\<^verbatim>\<open>ToNumber\<close>), for strings of signs and decimal digits:
  the empty string is 0, an optional sign with digits is that integer, anything else
  is \<^verbatim>\<open>NaN\<close> (\<open>None\<close>).\<close>

definition digit_value :: "char \<Rightarrow> nat option" where
  "digit_value c = findIndex (\<lambda>d. d = c) ''0123456789''"

fun parse_digits :: "nat \<Rightarrow> string \<Rightarrow> nat option" where
  "parse_digits acc [] = Some acc"
| "parse_digits acc (c # cs) =
     (case digit_value c of None \<Rightarrow> None | Some d \<Rightarrow> parse_digits (10 * acc + d) cs)"

definition string_to_number :: "string \<Rightarrow> int option" where
  "string_to_number s =
     (case s of
        [] \<Rightarrow> Some 0
      | c # cs \<Rightarrow>
          if c = CHR ''-'' then
            (if cs = [] then None else map_option (\<lambda>n. - int n) (parse_digits 0 cs))
          else if c = CHR ''+'' then
            (if cs = [] then None else map_option int (parse_digits 0 cs))
          else map_option int (parse_digits 0 s))"

definition to_number :: "js_quantity \<Rightarrow> int option" where
  "to_number v = (case v of QNumber n \<Rightarrow> Some n | QString s \<Rightarrow> string_to_number s)"

text \<open>\<^verbatim>\<open>n + v\<close> for a number \<open>n\<close>: addition when \<open>v\<close> is a number, concatenation
  of the printed \<open>n\<close> with \<open>v\<close> when \<open>v\<close> is a string.\<close>

definition js_plus :: "int \<Rightarrow> js_quantity \<Rightarrow> js_quantity" where
  "js_plus n v =
     (case v of QNumber m \<Rightarrow> QNumber (n + m) | QString s \<Rightarrow> QString (show_int n @ s))"

text \<open>\<^verbatim>\<open>n < v\<close> for a number \<open>n\<close>: \<open>v\<close> is converted to a number, and a
  comparison with \<^verbatim>\<open>NaN\<close> is false.\<close>

definition js_less :: "int \<Rightarrow> js_quantity \<Rightarrow> bool" where
  "js_less n v = (case to_number v of None \<Rightarrow> False | Some m \<Rightarrow> n < m)"

subsection \<open>The cart document's persistence\<close>

text \<open>Modelled from the spec: the Cart model (\<^verbatim>\<open>models/Cart.js\<close>) with its schema and
  save hook is not among the sources. The specification gives the aggregate
  \<^verbatim>\<open>recomputeTotals()\<close>, which "sets totalItems = \<Sigma> quantity, totalPrice =
  \<Sigma> (price\<times>quantity) over current items" and "must be invoked after any item list
  mutation before persisting".\<close>

definition recomputeTotals :: "cart \<Rightarrow> cart" where
  "recomputeTotals c =
     c\<lparr>totalItems := sum_list (map item_quantity (items c)),
       totalPrice := sum_list (map (\<lambda>it. item_price it * of_int (item_quantity it)) (items c))\<rparr>"

text \<open>Modelled from the spec: \<^verbatim>\<open>cart.save()\<close> recomputes the totals and stores the
  document under its user; the in-memory document carries the recomputed totals.\<close>

definition cart_save :: "database \<Rightarrow> object_id \<Rightarrow> cart \<Rightarrow> database \<times> cart" where
  "cart_save db uid c =
     (let c' = recomputeTotals c
      in (db\<lparr>carts := (carts db)(uid \<mapsto> c'), writes := writes db @ [CartSaved uid]\<rparr>, c'))"

text \<open>Modelled from the spec: \<^verbatim>\<open>Cart.create(doc)\<close> builds the document and saves it.\<close>

definition cart_create :: "database \<Rightarrow> object_id \<Rightarrow> cart \<Rightarrow> database \<times> cart" where
  "cart_create db uid c =
     (let c' = recomputeTotals c
      in (db\<lparr>carts := (carts db)(uid \<mapsto> c'), writes := writes db @ [CartCreated uid]\<rparr>, c'))"

text \<open>\<^verbatim>\<open>new Cart({user, items: []})\<close>: not stored until saved.\<close>

definition new_cart :: cart where
  "new_cart = \<lparr>items = [], totalItems = 0, totalPrice = 0\<rparr>"

section \<open>Cart controller\<close>

text \<open>Each handler takes the database and the request fields and returns the
  database after the request together with the response. A \<^verbatim>\<open>return res...\<close>
  before any save leaves the database as it was.\<close>

definition saved_ok :: "msg \<Rightarrow> database \<times> cart \<Rightarrow> database \<times> cart response" where
  "saved_ok m r = (fst r, ok m (snd r))"

subsection \<open>getCart\<close>

definition item_populated_active :: "product list \<Rightarrow> cart_item \<Rightarrow> bool" where
  "item_populated_active ps item =
     (case findById ps (item_product item) of None \<Rightarrow> False | Some p \<Rightarrow> isActive p)"

definition getCart :: "database \<Rightarrow> object_id \<Rightarrow> database \<times> cart response" where
  "getCart db uid =
     (let (db1, cart0) =
            (case carts db uid of
               None \<Rightarrow> cart_create db uid \<lparr>items = [], totalItems = 0, totalPrice = 0\<rparr>
             | Some c \<Rightarrow> (db, c));
          cart1 = cart0\<lparr>items := filter (item_populated_active (products db)) (items cart0)\<rparr>;
          (db2, cart2) =
            (if int (length (items cart1)) \<noteq> totalItems cart1 then cart_save db1 uid cart1
             else (db1, cart1))
      in (db2, \<lparr>status = 200, success = True, message = None, data = Some cart2\<rparr>))"

subsection \<open>addToCart\<close>

text \<open>\<^verbatim>\<open>quantity\<close> is used as the body holds it: compared with \<^verbatim>\<open><\<close>, added
  with \<^verbatim>\<open>+\<close> to the stored quantity, and cast to a number when it is assigned to the
  line item. A value that does not cast makes \<^verbatim>\<open>cart.save()\<close> throw, and the
  \<^verbatim>\<open>catch\<close> answers 400.\<close>

definition addToCart ::
  "database \<Rightarrow> object_id \<Rightarrow> object_id \<Rightarrow> js_quantity option \<Rightarrow> database \<times> cart response"
  where
  "addToCart db uid productId qopt =
     (let quantity = (case qopt of None \<Rightarrow> QNumber 1 | Some q \<Rightarrow> q)
      in case findById (products db) productId of
           None \<Rightarrow> (db, failure 404 ProductNotFoundOrInactive)
         | Some product \<Rightarrow>
             if \<not> isActive product then (db, failure 404 ProductNotFoundOrInactive)
             else if js_less (inventory_quantity product) quantity
               then (db, failure 400 (OnlyInStock (inventory_quantity product)))
             else
               let cart0 = (case carts db uid of None \<Rightarrow> new_cart | Some c \<Rightarrow> c)
               in case findIndex (\<lambda>item. item_product item = productId) (items cart0) of
                    Some i \<Rightarrow>
                      let existing = items cart0 ! i;
                          newQuantity = js_plus (item_quantity existing) quantity
                      in if js_less (inventory_quantity product) newQuantity
                         then (db, failure 400
                                 (CannotAddOnlyMore quantity
                                    (inventory_quantity product - item_quantity existing)))
                         else
                           (case to_number newQuantity of
                              None \<Rightarrow> (db, failure 400 ValidationFailed)
                            | Some n \<Rightarrow>
                                saved_ok ItemAdded
                                  (cart_save db uid
                                     (cart0\<lparr>items := (items cart0)
                                               [i := existing\<lparr>item_quantity := n\<rparr>]\<rparr>)))
                  | None \<Rightarrow>
                      (case to_number quantity of
                         None \<Rightarrow> (db, failure 400 ValidationFailed)
                       | Some n \<Rightarrow>
                           saved_ok ItemAdded
                             (cart_save db uid
                                (cart0\<lparr>items := items cart0 @
                                          [\<lparr>item_product = productId, item_quantity = n,
                                            item_price = p_price product\<rparr>]\<rparr>))))"

subsection \<open>updateCartItem\<close>

text \<open>This handler only compares \<^verbatim>\<open>quantity\<close> and assigns it, and both convert a
  string of digits to its number; \<open>quantity\<close> is that number.\<close>

definition updateCartItem ::
  "database \<Rightarrow> object_id \<Rightarrow> object_id \<Rightarrow> int \<Rightarrow> database \<times> cart response" where
  "updateCartItem db uid productId quantity =
     (if quantity < 1 then (db, failure 400 QuantityAtLeastOne)
      else case carts db uid of
             None \<Rightarrow> (db, failure 404 CartNotFound)
           | Some cart0 \<Rightarrow>
               (case findIndex (\<lambda>item. item_product item = productId) (items cart0) of
                  None \<Rightarrow> (db, failure 404 ItemNotInCart)
                | Some i \<Rightarrow>
                    (case findById (products db) productId of
                       None \<Rightarrow> (db, failure 404 ProductNotFoundOrInactive)
                     | Some product \<Rightarrow>
                         if \<not> isActive product then (db, failure 404 ProductNotFoundOrInactive)
                         else if inventory_quantity product < quantity
                           then (db, failure 400 (OnlyInStock (inventory_quantity product)))
                         else saved_ok CartUpdated
                                (cart_save db uid
                                   (cart0\<lparr>items := (items cart0)
                                             [i := (items cart0 ! i)
                                                     \<lparr>item_quantity := quantity,
                                                      item_price := p_price product\<rparr>]\<rparr>)))))"

subsection \<open>removeFromCart and clearCart\<close>

definition removeFromCart ::
  "database \<Rightarrow> object_id \<Rightarrow> object_id \<Rightarrow> database \<times> cart response" where
  "removeFromCart db uid productId =
     (case carts db uid of
        None \<Rightarrow> (db, failure 404 CartNotFound)
      | Some cart0 \<Rightarrow>
          (case findIndex (\<lambda>item. item_product item = productId) (items cart0) of
             None \<Rightarrow> (db, failure 404 ItemNotInCart)
           | Some i \<Rightarrow>
               saved_ok ItemRemoved (cart_save db uid (cart0\<lparr>items := splice1 i (items cart0)\<rparr>))))"

definition clearCart :: "database \<Rightarrow> object_id \<Rightarrow> database \<times> cart response" where
  "clearCart db uid =
     (case carts db uid of
        None \<Rightarrow> (db, failure 404 CartNotFound)
      | Some cart0 \<Rightarrow> saved_ok CartCleared (cart_save db uid (cart0\<lparr>items := []\<rparr>)))"

subsection \<open>getCartSummary\<close>

text \<open>The early return for an absent or empty cart sends an object without
  \<^verbatim>\<open>itemsCount\<close>; the field is optional in the model.\<close>

record summary =
  s_totalItems :: int
  s_totalPrice :: rat
  s_itemsCount :: "nat option"
  s_isEmpty :: bool

definition getCartSummary :: "database \<Rightarrow> object_id \<Rightarrow> database \<times> summary response" where
  "getCartSummary db uid =
     (case carts db uid of
        None \<Rightarrow>
          (db, \<lparr>status = 200, success = True, message = None,
                data = Some \<lparr>s_totalItems = 0, s_totalPrice = 0, s_itemsCount = None,
                              s_isEmpty = True\<rparr>\<rparr>)
      | Some cart0 \<Rightarrow>
          if length (items cart0) = 0 then
            (db, \<lparr>status = 200, success = True, message = None,
                  data = Some \<lparr>s_totalItems = 0, s_totalPrice = 0, s_itemsCount = None,
                                s_isEmpty = True\<rparr>\<rparr>)
          else
            (db, \<lparr>status = 200, success = True, message = None,
                  data = Some \<lparr>s_totalItems = totalItems cart0, s_totalPrice = totalPrice cart0,
                                s_itemsCount = Some (length (items cart0)),
                                s_isEmpty = False\<rparr>\<rparr>))"

subsection \<open>validateCart\<close>

text \<open>One entry of the \<^verbatim>\<open>errors\<close> array; a field the object literal does not set is
  \<open>None\<close>.\<close>

record validation_error =
  e_productId :: "object_id option"
  e_productName :: "string option"
  e_message :: msg
  e_type :: "string option"
  e_oldPrice :: "rat option"
  e_newPrice :: "rat option"

text \<open>\<^verbatim>\<open>Math.abs(a - b) > 0.01\<close> on doubles: the difference is rounded, and an
  infinite difference exceeds every number.\<close>

definition price_changed :: "rat \<Rightarrow> rat \<Rightarrow> bool" where
  "price_changed a b = (case fsub a b of None \<Rightarrow> True | Some d \<Rightarrow> literal_0_01 < \<bar>d\<bar>)"

text \<open>The \<^verbatim>\<open>for (const item of cart.items)\<close> loop with its two accumulators
  \<^verbatim>\<open>errors\<close> and \<^verbatim>\<open>validItems\<close>; each \<^verbatim>\<open>continue\<close> is a recursive call that
  skips the rest of the body.\<close>

fun validate_items ::
  "product list \<Rightarrow> cart_item list \<Rightarrow> validation_error list \<Rightarrow> cart_item list \<Rightarrow>
   validation_error list \<times> cart_item list" where
  "validate_items ps [] errors validItems = (errors, validItems)"
| "validate_items ps (item # rest) errors validItems =
     (case findById ps (item_product item) of
        None \<Rightarrow>
          validate_items ps rest
            (errors @ [\<lparr>e_productId = None, e_productName = None,
                         e_message = ProductNoLongerAvailable, e_type = None,
                         e_oldPrice = None, e_newPrice = None\<rparr>])
            validItems
      | Some p \<Rightarrow>
          if \<not> isActive p then
            validate_items ps rest
              (errors @ [\<lparr>e_productId = Some (p_id p), e_productName = None,
                           e_message = ProductNoLongerAvailable, e_type = None,
                           e_oldPrice = None, e_newPrice = None\<rparr>])
              validItems
          else if inventory_quantity p < item_quantity item then
            validate_items ps rest
              (errors @ [\<lparr>e_productId = Some (p_id p), e_productName = Some (p_name p),
                           e_message = OnlyAvailableRequested (inventory_quantity p)
                                         (item_quantity item),
                           e_type = None, e_oldPrice = None, e_newPrice = None\<rparr>])
              validItems
          else
            validate_items ps rest
              (if price_changed (item_price item) (p_price p) then
                 errors @ [\<lparr>e_productId = Some (p_id p), e_productName = Some (p_name p),
                              e_message = PriceHasChanged (item_price item) (p_price p),
                              e_type = Some ''price_change'',
                              e_oldPrice = Some (item_price item),
                              e_newPrice = Some (p_price p)\<rparr>]
               else errors)
              (validItems @ [item]))"

record validation =
  v_cart :: cart
  v_isValid :: bool
  v_errors :: "validation_error list"
  v_validItemsCount :: nat

text \<open>The \<^verbatim>\<open>mainImage\<close> virtual of \<^verbatim>\<open>models/Product.js\<close>, which \<^verbatim>\<open>toJSON\<close>
  evaluates (\<^verbatim>\<open>virtuals: true\<close>) on every product that is serialised. \<open>None\<close>
  is the \<^verbatim>\<open>images\<close> of a document loaded without that path, and
  \<^verbatim>\<open>this.images.find\<close> then throws a TypeError.\<close>

datatype js_error = TypeError

definition mainImage :: "image list option \<Rightarrow> js_error + string option" where
  "mainImage imgs =
     (case imgs of
        None \<Rightarrow> Inl TypeError
      | Some is \<Rightarrow>
          Inr (case find img_isMain is of
                 Some mainImg \<Rightarrow> Some (img_url mainImg)
               | None \<Rightarrow> (case is of [] \<Rightarrow> None | i # rest \<Rightarrow> Some (img_url i))))"

text \<open>\<^verbatim>\<open>res.json\<close> of a populated cart throws when the virtual throws on one of the
  populated products. \<open>images_selected\<close> says whether the \<^verbatim>\<open>select\<close> of the
  \<^verbatim>\<open>populate\<close> names \<^verbatim>\<open>images\<close>.\<close>

definition cart_json_throws :: "bool \<Rightarrow> product list \<Rightarrow> cart \<Rightarrow> bool" where
  "cart_json_throws images_selected ps c =
     list_ex
       (\<lambda>item. case findById ps (item_product item) of
                 None \<Rightarrow> False
               | Some p \<Rightarrow> isl (mainImage (if images_selected then Some (p_images p) else None)))
       (items c)"

text \<open>\<^verbatim>\<open>validateCart\<close> populates with \<^verbatim>\<open>'name price inventory isActive'\<close>, without
  \<^verbatim>\<open>images\<close>. Its \<^verbatim>\<open>res.json\<close> stands inside the \<^verbatim>\<open>try\<close>, after the save, so a
  throw there is answered by the \<^verbatim>\<open>catch\<close> with status 400. (The other cart handlers
  populate with \<^verbatim>\<open>images\<close> in the \<^verbatim>\<open>select\<close>.)\<close>

definition validateCart :: "database \<Rightarrow> object_id \<Rightarrow> database \<times> validation response" where
  "validateCart db uid =
     (case carts db uid of
        None \<Rightarrow> (db, failure 400 CartIsEmpty)
      | Some cart0 \<Rightarrow>
          if length (items cart0) = 0 then (db, failure 400 CartIsEmpty)
          else
            let (errors, validItems) = validate_items (products db) (items cart0) [] [];
                (db1, cart1) =
                  (if length errors > 0 \<and> length validItems \<noteq> length (items cart0)
                   then cart_save db uid (cart0\<lparr>items := validItems\<rparr>)
                   else (db, cart0))
            in if cart_json_throws False (products db) cart1
               then (db1, failure 400 SerializationFailed)
               else (db1, \<lparr>status = 200, success = (length errors = 0), message = None,
                          data = Some \<lparr>v_cart = cart1, v_isValid = (length errors = 0),
                                        v_errors = errors,
                                        v_validItemsCount = length validItems\<rparr>\<rparr>))"

subsection \<open>applyCoupon\<close>

datatype coupon_type = Percentage | Fixed

record coupon =
  discount :: rat
  ctype :: coupon_type

text \<open>The object literal \<^verbatim>\<open>validCoupons\<close>, looked up by its own keys.\<close>

definition validCoupons :: "string \<rightharpoonup> coupon" where
  "validCoupons =
     map_of [(''SAVE10'', \<lparr>discount = 10, ctype = Percentage\<rparr>),
             (''WELCOME20'', \<lparr>discount = 20, ctype = Percentage\<rparr>),
             (''FLAT50'', \<lparr>discount = 50, ctype = Fixed\<rparr>)]"

record coupon_info =
  c_code :: string
  c_discount :: rat
  c_type :: coupon_type

text \<open>\<open>None\<close> in \<open>discountAmount\<close> or \<open>finalPrice\<close>: not a finite number.\<close>

record coupon_result =
  cr_coupon :: coupon_info
  originalPrice :: rat
  discountAmount :: "rat option"
  finalPrice :: "rat option"

definition applyCoupon ::
  "database \<Rightarrow> object_id \<Rightarrow> string \<Rightarrow> database \<times> coupon_result response" where
  "applyCoupon db uid couponCode =
     (case validCoupons couponCode of
        None \<Rightarrow> (db, failure 400 InvalidCouponCode)
      | Some cp \<Rightarrow>
          (case carts db uid of
             None \<Rightarrow> (db, failure 400 CartIsEmpty)
           | Some cart0 \<Rightarrow>
               if length (items cart0) = 0 then (db, failure 400 CartIsEmpty)
               else
                 let amount =
                       (if ctype cp = Percentage
                        then (case fmul (totalPrice cart0) (discount cp) of
                                None \<Rightarrow> None
                              | Some product \<Rightarrow> fdiv product 100)
                        else Some (min (discount cp) (totalPrice cart0)));
                     final =
                       (case amount of None \<Rightarrow> None | Some a \<Rightarrow> fsub (totalPrice cart0) a)
                 in (db, ok CouponApplied
                           \<lparr>cr_coupon = \<lparr>c_code = couponCode, c_discount = discount cp,
                                          c_type = ctype cp\<rparr>,
                            originalPrice = totalPrice cart0,
                            discountAmount = amount, finalPrice = final\<rparr>)))"

section \<open>Product model and controller\<close>

subsection \<open>calculateAverageRating\<close>

text \<open>\<^verbatim>\<open>Math.round\<close>: the nearest integer, a tie going up.\<close>

definition math_round :: "rat \<Rightarrow> rat" where
  "math_round x = of_int \<lfloor>x + 1 / 2\<rfloor>"

definition calculateAverageRating :: "product \<Rightarrow> product" where
  "calculateAverageRating p =
     (if length (reviews p) = 0 then p\<lparr>ratings_average := 0, ratings_count := 0\<rparr>
      else
        let sum = foldl (\<lambda>acc review. acc + r_rating review) 0 (reviews p)
        in p\<lparr>ratings_average := math_round ((sum / of_nat (length (reviews p))) * 10) / 10,
             ratings_count := length (reviews p)\<rparr>)"

subsection \<open>What the database engine computes\<close>

text \<open>Regular-expression matching, full-text search and the ordering of a field's
  values belong to the database engine; the handlers are modelled for any such engine.
  \<open>regex_i pat s\<close> is the case-insensitive match of the pattern \<open>pat\<close> in \<open>s\<close>,
  \<open>text_search q p\<close> the \<^verbatim>\<open>$text\<close> match of a product, and \<open>field_le f a b\<close> says
  that \<open>a\<close> does not come after \<open>b\<close> in ascending order of the field \<open>f\<close>.\<close>

record engine =
  regex_i :: "string \<Rightarrow> string \<Rightarrow> bool"
  text_search :: "string \<Rightarrow> product \<Rightarrow> bool"
  field_le :: "string \<Rightarrow> product \<Rightarrow> product \<Rightarrow> bool"

text \<open>\<^verbatim>\<open>Model.find(filter)\<close>: the documents that satisfy every condition of the filter
  object, in natural order.\<close>

definition mongo_find :: "('a \<Rightarrow> bool) list \<Rightarrow> 'a list \<Rightarrow> 'a list" where
  "mongo_find conds xs = filter (\<lambda>x. list_all (\<lambda>c. c x) conds) xs"

fun insert_by :: "('a \<Rightarrow> 'a \<Rightarrow> bool) \<Rightarrow> 'a \<Rightarrow> 'a list \<Rightarrow> 'a list" where
  "insert_by le x [] = [x]"
| "insert_by le x (y # ys) = (if le x y then x # y # ys else y # insert_by le x ys)"

text \<open>\<^verbatim>\<open>.sort({field: dir})\<close> with \<open>dir\<close> being \<open>1\<close> or \<open>-1\<close>.\<close>

definition mongo_sort :: "engine \<Rightarrow> string \<Rightarrow> int \<Rightarrow> product list \<Rightarrow> product list" where
  "mongo_sort E field dir xs =
     foldr (insert_by (\<lambda>a b. if dir = 1 then field_le E field a b else field_le E field b a))
       xs []"

text \<open>\<^verbatim>\<open>.limit(n)\<close>: zero means no limit, and a negative number limits like its
  absolute value.\<close>

definition mongo_limit :: "int \<Rightarrow> 'a list \<Rightarrow> 'a list" where
  "mongo_limit n xs = (if n = 0 then xs else take (nat \<bar>n\<bar>) xs)"

text \<open>JavaScript truthiness of an optional query string: \<^verbatim>\<open>undefined\<close> and the empty
  string are falsy.\<close>

definition truthy :: "string option \<Rightarrow> bool" where
  "truthy s = (case s of None \<Rightarrow> False | Some v \<Rightarrow> v \<noteq> [])"

definition default_to :: "'a \<Rightarrow> 'a option \<Rightarrow> 'a" where
  "default_to d x = (case x of None \<Rightarrow> d | Some v \<Rightarrow> v)"

text \<open>\<^verbatim>\<open>product.save()\<close>: the stored document with this \<^verbatim>\<open>_id\<close> is replaced.\<close>

definition product_save :: "database \<Rightarrow> product \<Rightarrow> database" where
  "product_save db p =
     db\<lparr>products := map (\<lambda>q. if p_id q = p_id p then p else q) (products db),
        writes := writes db @ [ProductSaved (p_id p)]\<rparr>"

subsection \<open>getProducts\<close>

text \<open>\<^verbatim>\<open>req.query\<close> after the route's validation: \<open>q_page\<close> and \<open>q_limit\<close> are what
  \<^verbatim>\<open>parseInt\<close> returns, the price and rating bounds what \<^verbatim>\<open>parseFloat\<close> returns
  for a present parameter.\<close>

record product_query =
  q_page :: "int option"
  q_limit :: "int option"
  q_category :: "string option"
  q_brand :: "string option"
  q_minPrice :: "rat option"
  q_maxPrice :: "rat option"
  q_rating :: "rat option"
  q_search :: "string option"
  q_sortBy :: "string option"
  q_sortOrder :: "string option"
  q_featured :: "string option"

text \<open>"Build filter object": the conditions in the order the handler adds them.\<close>

definition build_filter :: "engine \<Rightarrow> product_query \<Rightarrow> (product \<Rightarrow> bool) list" where
  "build_filter E q =
     [isActive]
     @ (if truthy (q_category q) then [\<lambda>p. Some (p_category p) = q_category q] else [])
     @ (case q_brand q of
          None \<Rightarrow> []
        | Some b \<Rightarrow> if b \<noteq> [] then [\<lambda>p. regex_i E b (p_brand p)] else [])
     @ (case q_minPrice q of None \<Rightarrow> [] | Some lo \<Rightarrow> [\<lambda>p. lo \<le> p_price p])
     @ (case q_maxPrice q of None \<Rightarrow> [] | Some hi \<Rightarrow> [\<lambda>p. p_price p \<le> hi])
     @ (case q_rating q of None \<Rightarrow> [] | Some r \<Rightarrow> [\<lambda>p. r \<le> ratings_average p])
     @ (case q_search q of
          None \<Rightarrow> []
        | Some t \<Rightarrow> if t \<noteq> [] then [text_search E t] else [])
     @ (if q_featured q = Some ''true'' then [isFeatured] else [])"

text \<open>Of the response, the product page, the current page and the total count are
  modelled; the remaining pagination fields are derived from these and the limit. The
  projections (\<^verbatim>\<open>select\<close>) and \<^verbatim>\<open>populate\<close> only shape how a returned product is
  rendered, so a returned product is the stored document. The database rejects a
  negative skip, and the handler's \<^verbatim>\<open>catch\<close> answers 400.\<close>

record product_page =
  pp_products :: "product list"
  pp_currentPage :: int
  pp_totalProducts :: nat

definition getProducts ::
  "engine \<Rightarrow> database \<Rightarrow> product_query \<Rightarrow> database \<times> product_page response" where
  "getProducts E db q =
     (let page = default_to 1 (q_page q);
          limit = default_to 12 (q_limit q);
          sortBy = default_to ''createdAt'' (q_sortBy q);
          sortOrder = default_to ''desc'' (q_sortOrder q);
          filt = build_filter E q;
          dir = (if sortOrder = ''desc'' then - 1 else 1);
          skip = (page - 1) * limit
      in if skip < 0 then (db, failure 400 QueryFailed)
         else
           let found = mongo_limit limit
                         (drop (nat skip) (mongo_sort E sortBy dir (mongo_find filt (products db))));
               total = length (mongo_find filt (products db))
           in (db, \<lparr>status = 200, success = True, message = None,
                     data = Some \<lparr>pp_products = found, pp_currentPage = page,
                                   pp_totalProducts = total\<rparr>\<rparr>))"

subsection \<open>getProduct, searchProducts, getRelatedProducts\<close>

definition getProduct :: "database \<Rightarrow> object_id \<Rightarrow> database \<times> product response" where
  "getProduct db i =
     (case findById (products db) i of
        None \<Rightarrow> (db, failure 404 ProductNotFound)
      | Some p \<Rightarrow> (db, \<lparr>status = 200, success = True, message = None, data = Some p\<rparr>))"

record search_result =
  sr_products :: "product list"
  sr_count :: nat

definition searchProducts ::
  "engine \<Rightarrow> database \<Rightarrow> string option \<Rightarrow> int option \<Rightarrow> database \<times> search_result response"
  where
  "searchProducts E db qo lo =
     (let limit = default_to 10 lo
      in case qo of
           None \<Rightarrow> (db, failure 400 SearchQueryRequired)
         | Some q \<Rightarrow>
             if q = [] then (db, failure 400 SearchQueryRequired)
             else
               let found =
                     mongo_limit limit
                       (mongo_find
                          [isActive,
                           \<lambda>p. regex_i E q (p_name p) \<or> regex_i E q (p_description p) \<or>
                                regex_i E q (p_brand p) \<or> list_ex (regex_i E q) (p_tags p)]
                          (products db))
               in (db, \<lparr>status = 200, success = True, message = None,
                         data = Some \<lparr>sr_products = found, sr_count = length found\<rparr>\<rparr>))"

definition getRelatedProducts ::
  "database \<Rightarrow> object_id \<Rightarrow> int option \<Rightarrow> database \<times> product list response" where
  "getRelatedProducts db i lo =
     (let limit = default_to 4 lo
      in case findById (products db) i of
           None \<Rightarrow> (db, failure 404 ProductNotFound)
         | Some product \<Rightarrow>
             let related =
                   mongo_limit limit
                     (mongo_find
                        [\<lambda>p. p_id p \<noteq> p_id product,
                         \<lambda>p. p_category p = p_category product,
                         isActive]
                        (products db))
             in (db, \<lparr>status = 200, success = True, message = None, data = Some related\<rparr>))"

subsection \<open>deleteProduct\<close>

definition deleteProduct :: "database \<Rightarrow> object_id \<Rightarrow> database \<times> unit response" where
  "deleteProduct db i =
     (case findById (products db) i of
        None \<Rightarrow> (db, failure 404 ProductNotFound)
      | Some product \<Rightarrow>
          (product_save db (product\<lparr>isActive := False\<rparr>),
           \<lparr>status = 200, success = True, message = Some ProductDeleted, data = None\<rparr>))"

subsection \<open>updateProduct\<close>

text \<open>\<^verbatim>\<open>req.body\<close> goes to \<^verbatim>\<open>findByIdAndUpdate\<close> as it is, and every key of it that
  is a path of the schema is set. The route's validation leaves \<^verbatim>\<open>reviews\<close>
  unchecked. Of the body, the keys below are modelled; a key that is absent is
  \<open>None\<close>.\<close>

record product_patch =
  u_description :: "string option"
  u_price :: "rat option"
  u_reviews :: "review list option"
  u_isActive :: "bool option"
  u_isFeatured :: "bool option"

definition apply_patch :: "product_patch \<Rightarrow> product \<Rightarrow> product" where
  "apply_patch u p =
     p\<lparr>p_description := (case u_description u of None \<Rightarrow> p_description p | Some v \<Rightarrow> v),
       p_price := (case u_price u of None \<Rightarrow> p_price p | Some v \<Rightarrow> v),
       reviews := (case u_reviews u of None \<Rightarrow> reviews p | Some v \<Rightarrow> v),
       isActive := (case u_isActive u of None \<Rightarrow> isActive p | Some v \<Rightarrow> v),
       isFeatured := (case u_isFeatured u of None \<Rightarrow> isFeatured p | Some v \<Rightarrow> v)\<rparr>"

text \<open>The validators of \<^verbatim>\<open>reviewSchema\<close> on one review: a required user, a rating
  from 1 to 5, a required comment of at most 500 characters.\<close>

definition review_valid :: "review \<Rightarrow> bool" where
  "review_valid r =
     (r_user r \<noteq> [] \<and> 1 \<le> r_rating r \<and> r_rating r \<le> 5 \<and>
      r_comment r \<noteq> [] \<and> length (r_comment r) \<le> 500)"

text \<open>\<^verbatim>\<open>runValidators: true\<close>: the schema's validators on the keys that are set (a
  required description of at most 2000 characters, a price that is not negative, valid
  reviews).\<close>

definition patch_valid :: "product_patch \<Rightarrow> bool" where
  "patch_valid u =
     ((case u_description u of None \<Rightarrow> True | Some v \<Rightarrow> v \<noteq> [] \<and> length v \<le> 2000) \<and>
      (case u_price u of None \<Rightarrow> True | Some v \<Rightarrow> 0 \<le> v) \<and>
      (case u_reviews u of None \<Rightarrow> True | Some rs \<Rightarrow> list_all review_valid rs))"

definition updateProduct ::
  "database \<Rightarrow> object_id \<Rightarrow> product_patch \<Rightarrow> database \<times> product response" where
  "updateProduct db i body =
     (if \<not> patch_valid body then (db, failure 400 ValidationFailed)
      else case findById (products db) i of
             None \<Rightarrow> (db, failure 404 ProductNotFound)
           | Some product \<Rightarrow>
               (product_save db (apply_patch body product),
                \<lparr>status = 200, success = True, message = Some ProductUpdated,
                 data = Some (apply_patch body product)\<rparr>))"

subsection \<open>addReview\<close>

text \<open>\<^verbatim>\<open>product.save()\<close> runs the validators on the paths \<^verbatim>\<open>addReview\<close> has
  modified: those of the new review, and the bounds 0 and 5 of \<^verbatim>\<open>ratings.average\<close>.
  A failed validator makes \<^verbatim>\<open>save\<close> throw, and the handler's \<^verbatim>\<open>catch\<close> answers
  400.\<close>

definition ratings_valid :: "product \<Rightarrow> bool" where
  "ratings_valid p = (0 \<le> ratings_average p \<and> ratings_average p \<le> 5)"

definition addReview ::
  "database \<Rightarrow> object_id \<Rightarrow> object_id \<Rightarrow> rat \<Rightarrow> string \<Rightarrow> database \<times> review response" where
  "addReview db i uid rating comment =
     (case findById (products db) i of
        None \<Rightarrow> (db, failure 404 ProductNotFound)
      | Some product \<Rightarrow>
          (case find (\<lambda>r. r_user r = uid) (reviews product) of
             Some existingReview \<Rightarrow> (db, failure 400 AlreadyReviewed)
           | None \<Rightarrow>
               let rv = \<lparr>r_user = uid, r_rating = rating, r_comment = comment\<rparr>;
                   product1 = calculateAverageRating (product\<lparr>reviews := reviews product @ [rv]\<rparr>)
               in if review_valid rv \<and> ratings_valid product1
                  then (product_save db product1,
                        \<lparr>status = 201, success = True, message = Some ReviewAdded,
                         data = Some rv\<rparr>)
                  else (db, failure 400 ValidationFailed)))"

section \<open>Vocabulary of the properties\<close>

text \<open>The stored totals agree with the line items.\<close>

definition totals_consistent :: "cart \<Rightarrow> bool" where
  "totals_consistent c =
     (totalItems c = sum_list (map item_quantity (items c)) \<and>
      totalPrice c = sum_list (map (\<lambda>it. item_price it * of_int (item_quantity it)) (items c)))"

definition persisted_totals_ok :: "database \<Rightarrow> object_id \<Rightarrow> bool" where
  "persisted_totals_ok db uid =
     (case carts db uid of None \<Rightarrow> False | Some c \<Rightarrow> totals_consistent c)"

text \<open>The line items stored for a user.\<close>

definition persisted_items :: "database \<Rightarrow> object_id \<Rightarrow> cart_item list" where
  "persisted_items db uid = (case carts db uid of None \<Rightarrow> [] | Some c \<Rightarrow> items c)"

text \<open>The three conditions \<^verbatim>\<open>validateCart\<close> tests on a line item, as conditions on
  the item and the catalogue: the product is missing or inactive (the negation of
  \<open>item_populated_active\<close>), the quantity exceeds the live inventory, the snapshot price
  differs from the live price by more than 0.01 (as the handler computes it).\<close>

definition item_out_of_stock :: "product list \<Rightarrow> cart_item \<Rightarrow> bool" where
  "item_out_of_stock ps item =
     (case findById ps (item_product item) of
        None \<Rightarrow> False | Some p \<Rightarrow> inventory_quantity p < item_quantity item)"

definition item_price_drift :: "product list \<Rightarrow> cart_item \<Rightarrow> bool" where
  "item_price_drift ps item =
     (case findById ps (item_product item) of
        None \<Rightarrow> False | Some p \<Rightarrow> price_changed (item_price item) (p_price p))"

definition item_valid :: "product list \<Rightarrow> cart_item \<Rightarrow> bool" where
  "item_valid ps item = (item_populated_active ps item \<and> \<not> item_out_of_stock ps item)"

text \<open>The errors of one line item: the loop run on that item alone.\<close>

definition item_errors :: "product list \<Rightarrow> cart_item \<Rightarrow> validation_error list" where
  "item_errors ps item = fst (validate_items ps [item] [] [])"

text \<open>The error messages a line item should produce according to the stated
  precedence: unavailability first, then insufficient stock, then price drift, and at
  most one of them.\<close>

definition expected_item_errors :: "product list \<Rightarrow> cart_item \<Rightarrow> msg list" where
  "expected_item_errors ps item =
     (case findById ps (item_product item) of
        None \<Rightarrow> [ProductNoLongerAvailable]
      | Some p \<Rightarrow>
          if \<not> isActive p then [ProductNoLongerAvailable]
          else if inventory_quantity p < item_quantity item
            then [OnlyAvailableRequested (inventory_quantity p) (item_quantity item)]
          else if price_changed (item_price item) (p_price p)
            then [PriceHasChanged (item_price item) (p_price p)]
          else [])"

text \<open>The quantity of a request that gives it as a JSON number or leaves it out (the
  default is 1); \<open>None\<close> for a request that gives a string.\<close>

definition requested_number :: "js_quantity option \<Rightarrow> int option" where
  "requested_number q =
     (case q of None \<Rightarrow> Some 1 | Some (QNumber n) \<Rightarrow> Some n | Some (QString s) \<Rightarrow> None)"

text \<open>The user has no cart, or a cart without line items.\<close>

definition cart_absent_or_empty :: "database \<Rightarrow> object_id \<Rightarrow> bool" where
  "cart_absent_or_empty db uid = (case carts db uid of None \<Rightarrow> True | Some c \<Rightarrow> items c = [])"

text \<open>The rating invariant of the product model: the mean of the review ratings, and
  what it means for \<open>a\<close> to be \<open>m\<close> rounded to one decimal place: \<open>a\<close> is a
  multiple of one tenth and lies within half a tenth of \<open>m\<close>.\<close>

definition mean :: "rat list \<Rightarrow> rat" where
  "mean xs = sum_list xs / of_nat (length xs)"

definition rounded_to_one_decimal :: "rat \<Rightarrow> rat \<Rightarrow> bool" where
  "rounded_to_one_decimal a m = (of_int \<lfloor>a * 10\<rfloor> = a * 10 \<and> \<bar>a - m\<bar> \<le> 1 / 20)"

definition ratings_invariant :: "product \<Rightarrow> bool" where
  "ratings_invariant p =
     (ratings_count p = length (reviews p) \<and>
      (if reviews p = [] then ratings_average p = 0
       else rounded_to_one_decimal (ratings_average p) (mean (map r_rating (reviews p)))))"

text \<open>The products a query response carries (none when the request fails).\<close>

definition listed_products :: "engine \<Rightarrow> database \<Rightarrow> product_query \<Rightarrow> product list" where
  "listed_products E db q =
     (case data (snd (getProducts E db q)) of None \<Rightarrow> [] | Some d \<Rightarrow> pp_products d)"

definition searched_products ::
  "engine \<Rightarrow> database \<Rightarrow> string option \<Rightarrow> int option \<Rightarrow> product list" where
  "searched_products E db s l =
     (case data (snd (searchProducts E db s l)) of None \<Rightarrow> [] | Some d \<Rightarrow> sr_products d)"

definition related_products :: "database \<Rightarrow> object_id \<Rightarrow> int option \<Rightarrow> product list" where
  "related_products db i l =
     (case data (snd (getRelatedProducts db i l)) of None \<Rightarrow> [] | Some ps \<Rightarrow> ps)"

subsection \<open>Example data\<close>

text \<open>A product with price 10 and stock 5, and a user whose cart holds three of it.\<close>

definition demo_product :: product where
  "demo_product =
     \<lparr>p_id = ''p1'', p_name = ''Pen'', p_description = ''A pen'', p_price = 10,
      p_category = ''c1'', p_brand = ''Acme'', p_tags = [''office''],
      p_images = [\<lparr>img_url = ''pen.png'', img_isMain = True\<rparr>], inventory_quantity = 5,
      reviews = [], ratings_average = 0, ratings_count = 0, isActive = True,
      isFeatured = False\<rparr>"

definition demo_cart :: cart where
  "demo_cart =
     \<lparr>items = [\<lparr>item_product = ''p1'', item_quantity = 3, item_price = 10\<rparr>],
      totalItems = 3, totalPrice = 30\<rparr>"

definition demo_db :: database where
  "demo_db = \<lparr>carts = [''u1'' \<mapsto> demo_cart], products = [demo_product], writes = []\<rparr>"

text \<open>A catalogue with an inactive product, a product short of stock and a product
  whose price has moved, and a cart with one line for each and one line whose product
  is gone.\<close>

definition demo_catalogue :: "product list" where
  "demo_catalogue =
     [demo_product,
      demo_product\<lparr>p_id := ''p2'', isActive := False\<rparr>,
      demo_product\<lparr>p_id := ''p3'', inventory_quantity := 1\<rparr>,
      demo_product\<lparr>p_id := ''p4'', p_price := 12\<rparr>]"

definition demo_items :: "cart_item list" where
  "demo_items =
     [\<lparr>item_product = ''p1'', item_quantity = 3, item_price = 10\<rparr>,
      \<lparr>item_product = ''p2'', item_quantity = 1, item_price = 10\<rparr>,
      \<lparr>item_product = ''p3'', item_quantity = 2, item_price = 10\<rparr>,
      \<lparr>item_product = ''p4'', item_quantity = 1, item_price = 10\<rparr>,
      \<lparr>item_product = ''p9'', item_quantity = 1, item_price = 10\<rparr>]"

definition demo_db2 :: database where
  "demo_db2 =
     \<lparr>carts = [''u1'' \<mapsto> \<lparr>items = demo_items, totalItems = 8, totalPrice = 80\<rparr>],
      products = demo_catalogue, writes = []\<rparr>"

text \<open>The same user when the catalogue price has risen to 12, and a database
  without any cart.\<close>

definition demo_db3 :: database where
  "demo_db3 = demo_db\<lparr>products := [demo_product\<lparr>p_price := 12\<rparr>]\<rparr>"

definition demo_empty_db :: database where
  "demo_empty_db = \<lparr>carts = Map.empty, products = [demo_product], writes = []\<rparr>"

text \<open>Three reviews rated 5, 4 and 3.\<close>

definition demo_reviews :: "review list" where
  "demo_reviews =
     [\<lparr>r_user = ''u1'', r_rating = 5, r_comment = ''great''\<rparr>,
      \<lparr>r_user = ''u2'', r_rating = 4, r_comment = ''good''\<rparr>,
      \<lparr>r_user = ''u3'', r_rating = 3, r_comment = ''fair''\<rparr>]"

text \<open>A catalogue whose product carries these three reviews and the ratings computed
  from them.\<close>

definition demo_reviewed_db :: database where
  "demo_reviewed_db =
     \<lparr>carts = Map.empty,
      products = [calculateAverageRating (demo_product\<lparr>reviews := demo_reviews\<rparr>)],
      writes = []\<rparr>"

text \<open>An engine whose patterns match by equality and whose order on every field is the
  order of the prices, and the query without parameters.\<close>

definition demo_engine :: engine where
  "demo_engine =
     \<lparr>regex_i = (\<lambda>pat s. pat = s),
      text_search = (\<lambda>q p. q = p_name p),
      field_le = (\<lambda>f a b. p_price a \<le> p_price b)\<rparr>"

definition demo_query :: product_query where
  "demo_query =
     \<lparr>q_page = None, q_limit = None, q_category = None, q_brand = None, q_minPrice = None,
      q_maxPrice = None, q_rating = None, q_search = None, q_sortBy = None,
      q_sortOrder = None, q_featured = None\<rparr>"

text \<open>A cart whose stored total is the double 19.99, and the body that empties the
  review list.\<close>

definition demo_db4 :: database where
  "demo_db4 =
     \<lparr>carts = [''u1'' \<mapsto> demo_cart\<lparr>totalPrice := 5626684784446013 / 281474976710656\<rparr>],
      products = [demo_product], writes = []\<rparr>"

definition demo_patch :: product_patch where
  "demo_patch =
     \<lparr>u_description = None, u_price = None, u_reviews = Some [], u_isActive = None,
      u_isFeatured = None\<rparr>"

text \<open>The first user again, with 40 of the product in stock.\<close>

definition demo_db_stock40 :: database where
  "demo_db_stock40 = demo_db\<lparr>products := [demo_product\<lparr>inventory_quantity := 40\<rparr>]\<rparr>"

section \<open>Properties\<close>

subsection \<open>Helper facts\<close>

lemma findIndex_Some: "findIndex P xs = Some i \<Longrightarrow> i < length xs \<and> P (xs ! i)"
  by (induction xs arbitrary: i) (auto split: if_splits)

lemma failure_status: "status (failure s m) = s"
  by (simp add: failure_def)

lemma saved_ok_fst: "fst (saved_ok m r) = fst r"
  by (simp add: saved_ok_def)

lemma totals_recompute: "totals_consistent (recomputeTotals c)"
  by (simp add: totals_consistent_def recomputeTotals_def)

lemma saved_totals: "persisted_totals_ok (fst (cart_save db uid c)) uid"
  by (simp add: persisted_totals_ok_def cart_save_def Let_def totals_recompute)

lemma addToCart_totals:
  "status (snd (addToCart db uid pid q)) = 200 \<Longrightarrow>
   persisted_totals_ok (fst (addToCart db uid pid q)) uid"
  by (auto simp: addToCart_def Let_def saved_ok_fst saved_totals failure_status
           split: option.splits if_splits)

lemma updateCartItem_totals:
  "status (snd (updateCartItem db uid pid n)) = 200 \<Longrightarrow>
   persisted_totals_ok (fst (updateCartItem db uid pid n)) uid"
  by (auto simp: updateCartItem_def Let_def saved_ok_fst saved_totals failure_status
           split: option.splits if_splits)

lemma removeFromCart_totals:
  "status (snd (removeFromCart db uid pid)) = 200 \<Longrightarrow>
   persisted_totals_ok (fst (removeFromCart db uid pid)) uid"
  by (auto simp: removeFromCart_def Let_def saved_ok_fst saved_totals failure_status
           split: option.splits if_splits)

lemma clearCart_totals:
  "status (snd (clearCart db uid)) = 200 \<Longrightarrow>
   persisted_totals_ok (fst (clearCart db uid)) uid \<and>
   carts (fst (clearCart db uid)) uid =
     Some ((the (carts db uid))\<lparr>items := [], totalItems := 0, totalPrice := 0\<rparr>)"
  by (auto simp: clearCart_def saved_ok_def cart_save_def recomputeTotals_def failure_status
        Let_def persisted_totals_ok_def totals_consistent_def split: option.splits)

subsection \<open>Facts about the double-precision arithmetic\<close>

lemma floor_rat_numeral:
  "\<lfloor>(numeral a :: rat) / numeral b\<rfloor> = numeral a div numeral b"
  using floor_divide_of_int_eq[of "numeral a" "numeral b", where ?'a = rat] by simp

lemmas double_eval =
  to_double_def fmul_def fdiv_def fsub_def scale_up.simps scale_down.simps
  round_half_even_def Let_def floor_rat_numeral

text \<open>The model agrees with the doubles of the literals \<^verbatim>\<open>19.99\<close> and \<^verbatim>\<open>0.01\<close>, with
  \<^verbatim>\<open>19.99 * 10\<close> (199.89999999999998), with that divided by 100
  (1.9989999999999997) and with \<^verbatim>\<open>0.07 - 0.06\<close> (0.010000000000000009).\<close>

lemma to_double_19_99: "to_double (1999 / 100) = Some (5626684784446013 / 281474976710656)"
  by (simp add: double_eval)

lemma to_double_0_01: "to_double (1 / 100) = Some literal_0_01"
  by (simp add: double_eval literal_0_01_def)

lemma fmul_19_99_10:
  "fmul (5626684784446013 / 281474976710656) 10 = Some (1758338995139379 / 8796093022208)"
  by (simp add: double_eval)

lemma fdiv_199_9_100:
  "fdiv (1758338995139379 / 8796093022208) 100 = Some (2250673913778405 / 1125899906842624)"
  by (simp add: double_eval)

lemma fsub_19_99_discount:
  "fsub (5626684784446013 / 281474976710656) (2250673913778405 / 1125899906842624) =
     Some (1266004076500353 / 70368744177664)"
  by (simp add: double_eval)

lemma fsub_0_07_0_06:
  "fsub (1261007895663739 / 18014398509481984) (1080863910568919 / 18014398509481984) =
     Some (45035996273705 / 4503599627370496)"
  by (simp add: double_eval)

lemma price_changed_one_cent:
  "price_changed (1261007895663739 / 18014398509481984) (1080863910568919 / 18014398509481984)"
  by (simp add: price_changed_def fsub_0_07_0_06 literal_0_01_def)

lemma small_arithmetic:
  "fsub 10 12 = Some (- 2)" "fsub 10 10 = Some 0" "fsub 9 10 = Some (- 1)"
  "fmul 30 10 = Some 300" "fdiv 300 100 = Some 3" "fsub 30 3 = Some 27" "fsub 30 30 = Some 0"
  by (simp_all add: double_eval)

lemma price_changed_demo:
  "price_changed 10 12" "\<not> price_changed 10 10" "price_changed 9 10"
  by (simp_all add: price_changed_def small_arithmetic literal_0_01_def)

lemma scale_up_pos:
  "0 \<le> s \<Longrightarrow> 0 < u \<Longrightarrow> 0 \<le> fst (scale_up s u) \<and> 0 < snd (scale_up s u)"
proof (induction s u rule: scale_up.induct)
  case (1 s u)
  show ?case
  proof (cases "2 ^ 53 \<le> s")
    case True
    with 1 show ?thesis by (subst scale_up.simps, subst (2) scale_up.simps) simp
  next
    case False
    with 1 show ?thesis by (subst scale_up.simps, subst (2) scale_up.simps) simp
  qed
qed

lemma scale_down_pos:
  "0 \<le> s \<Longrightarrow> 0 < u \<Longrightarrow> 0 \<le> fst (scale_down s u) \<and> 0 < snd (scale_down s u)"
proof (induction s u rule: scale_down.induct)
  case (1 s u)
  show ?case
  proof (cases "s < 2 ^ 52 \<and> 1 / 2 ^ 1074 < u")
    case True
    with 1 show ?thesis by (subst scale_down.simps, subst (2) scale_down.simps) simp
  next
    case False
    with 1 show ?thesis by (subst scale_down.simps, subst (2) scale_down.simps) simp
  qed
qed

lemma round_half_even_nonneg: "0 \<le> x \<Longrightarrow> 0 \<le> round_half_even x"
  by (simp add: round_half_even_def Let_def)

lemma to_double_nonneg: "0 \<le> x \<Longrightarrow> to_double x = Some y \<Longrightarrow> 0 \<le> y"
proof -
  assume x: "0 \<le> x" and y: "to_double x = Some y"
  show ?thesis
  proof (cases "x = 0")
    case True
    with y show ?thesis by (simp add: to_double_def split: if_splits)
  next
    case False
    obtain s1 u1 where a: "scale_up \<bar>x\<bar> 1 = (s1, u1)" by (cases "scale_up \<bar>x\<bar> 1")
    obtain s u where b: "scale_down s1 u1 = (s, u)" by (cases "scale_down s1 u1")
    from scale_up_pos[of "\<bar>x\<bar>" 1] a have "0 \<le> s1" "0 < u1" by simp_all
    with scale_down_pos[of s1 u1] b have "0 \<le> s" "0 < u" by simp_all
    then have "0 \<le> of_int (round_half_even s) * u"
      using round_half_even_nonneg[of s] by simp
    moreover from y False a b have "y = sgn x * of_int (round_half_even s) * u"
      by (simp add: to_double_def split: if_splits)
    ultimately show ?thesis using x False by (simp add: sgn_if)
  qed
qed

lemma to_double_finite: "\<bar>x\<bar> < 2 ^ 1024 - 2 ^ 970 \<Longrightarrow> to_double x \<noteq> None"
  by (simp add: to_double_def split: prod.splits)

lemma scale_up_product: "fst (scale_up s u) * snd (scale_up s u) = s * u"
proof (induction s u rule: scale_up.induct)
  case (1 s u)
  show ?case
  proof (cases "2 ^ 53 \<le> s")
    case True
    with 1 show ?thesis by (subst scale_up.simps, subst (2) scale_up.simps) simp
  next
    case False
    then show ?thesis by (subst scale_up.simps, subst (2) scale_up.simps) simp
  qed
qed

lemma scale_up_below: "fst (scale_up s u) < 2 ^ 53"
proof (induction s u rule: scale_up.induct)
  case (1 s u)
  show ?case
  proof (cases "2 ^ 53 \<le> s")
    case True
    with 1 show ?thesis by (subst scale_up.simps) simp
  next
    case False
    then show ?thesis by (subst scale_up.simps) simp
  qed
qed

lemma scale_down_step:
  "s < 2 ^ 52 \<and> 1 / 2 ^ 1074 < u \<Longrightarrow> scale_down s u = scale_down (s * 2) (u / 2)"
  by (subst scale_down.simps) (rule if_P)

lemma scale_down_stop:
  "\<not> (s < 2 ^ 52 \<and> 1 / 2 ^ 1074 < u) \<Longrightarrow> scale_down s u = (s, u)"
  by (subst scale_down.simps) (rule if_not_P)

lemma scale_down_product: "fst (scale_down s u) * snd (scale_down s u) = s * u"
proof (induction s u rule: scale_down.induct)
  case (1 s u)
  show ?case
  proof (cases "s < 2 ^ 52 \<and> 1 / 2 ^ 1074 < u")
    case True
    from 1[OF True] show ?thesis by (simp add: scale_down_step[OF True])
  next
    case False
    show ?thesis by (simp only: scale_down_stop[OF False] fst_conv snd_conv)
  qed
qed

lemma scale_down_post:
  "2 ^ 52 \<le> fst (scale_down s u) \<or> snd (scale_down s u) \<le> 1 / 2 ^ 1074"
proof (induction s u rule: scale_down.induct)
  case (1 s u)
  show ?case
  proof (cases "s < 2 ^ 52 \<and> 1 / 2 ^ 1074 < u")
    case True
    from 1[OF True] show ?thesis by (simp only: scale_down_step[OF True])
  next
    case False
    then have "2 ^ 52 \<le> s \<or> u \<le> 1 / 2 ^ 1074" by (simp only: de_Morgan_conj not_less)
    then show ?thesis by (simp only: scale_down_stop[OF False] fst_conv snd_conv)
  qed
qed

lemma round_half_even_near: "\<bar>of_int (round_half_even x) - x\<bar> \<le> 1 / 2"
proof -
  have a: "of_int \<lfloor>x\<rfloor> \<le> x" by (rule of_int_floor_le)
  have b: "x < of_int \<lfloor>x\<rfloor> + 1" by linarith
  show ?thesis
    using a b by (auto simp add: round_half_even_def Let_def abs_le_iff)
qed

text \<open>The rounded value is near the exact one: within a relative error of
  \<open>2 ^ -53\<close>, or in the lowest range within \<open>2 ^ -1075\<close>.\<close>

lemma to_double_near:
  assumes "to_double x = Some y"
  shows "\<bar>y - x\<bar> \<le> \<bar>x\<bar> / 2 ^ 53 \<or> \<bar>y - x\<bar> \<le> 1 / 2 ^ 1075"
proof (cases "x = 0")
  case True
  with assms show ?thesis by (simp add: to_double_def split: if_splits)
next
  case False
  obtain s1 u1 where a: "scale_up \<bar>x\<bar> 1 = (s1, u1)" by (cases "scale_up \<bar>x\<bar> 1")
  obtain s u where b: "scale_down s1 u1 = (s, u)" by (cases "scale_down s1 u1")
  from scale_up_pos[of "\<bar>x\<bar>" 1] a have p1: "0 \<le> s1" "0 < u1" by simp_all
  with scale_down_pos[of s1 u1] b have p: "0 \<le> s" "0 < u" by simp_all
  from scale_up_product[of "\<bar>x\<bar>" 1] a have "s1 * u1 = \<bar>x\<bar>" by simp
  with scale_down_product[of s1 u1] b have su: "s * u = \<bar>x\<bar>" by simp
  from assms False a b have y: "y = sgn x * of_int (round_half_even s) * u"
    by (simp add: to_double_def split: if_splits)
  have "x = sgn x * \<bar>x\<bar>" by (simp add: sgn_if)
  with su have x: "x = sgn x * s * u" by (simp add: mult.assoc)
  have "y - x = sgn x * (of_int (round_half_even s) - s) * u"
    by (subst x, subst y) (simp add: algebra_simps)
  then have "\<bar>y - x\<bar> = \<bar>of_int (round_half_even s) - s\<bar> * u"
    using False p by (simp add: abs_mult sgn_if)
  with round_half_even_near[of s] p have e: "\<bar>y - x\<bar> \<le> u / 2"
    by (simp add: mult_right_mono)
  from scale_down_post[of s1 u1] b have "2 ^ 52 \<le> s \<or> u \<le> 1 / 2 ^ 1074" by simp
  then show ?thesis
  proof
    assume "2 ^ 52 \<le> s"
    with p have "2 ^ 52 * u \<le> s * u" by (simp add: mult_right_mono)
    with su have "u \<le> \<bar>x\<bar> / 2 ^ 52" by (simp add: field_simps)
    with e have "\<bar>y - x\<bar> \<le> \<bar>x\<bar> / 2 ^ 53" by simp
    then show ?thesis by simp
  next
    assume "u \<le> 1 / 2 ^ 1074"
    with e have "\<bar>y - x\<bar> \<le> 1 / 2 ^ 1075" by simp
    then show ?thesis by simp
  qed
qed

subsection \<open>Stored totals after a mutation\<close>

text \<open>
  Claim C1. After addToCart, updateCartItem, removeFromCart or clearCart completes
  successfully (status 200), the cart stored for the user has totalItems equal to the
  sum of the item quantities and totalPrice equal to the sum of price times quantity
  over its current items; after clearCart the stored cart has no items and both totals
  are zero.
\<close>

theorem cart_totals_after_mutation:
  "(status (snd (addToCart db uid pid q)) = 200 \<longrightarrow>
      persisted_totals_ok (fst (addToCart db uid pid q)) uid) \<and>
   (status (snd (updateCartItem db uid pid n)) = 200 \<longrightarrow>
      persisted_totals_ok (fst (updateCartItem db uid pid n)) uid) \<and>
   (status (snd (removeFromCart db uid pid)) = 200 \<longrightarrow>
      persisted_totals_ok (fst (removeFromCart db uid pid)) uid) \<and>
   (status (snd (clearCart db uid)) = 200 \<longrightarrow>
      persisted_totals_ok (fst (clearCart db uid)) uid \<and>
      map_option items (carts (fst (clearCart db uid)) uid) = Some [] \<and>
      map_option totalItems (carts (fst (clearCart db uid)) uid) = Some 0 \<and>
      map_option totalPrice (carts (fst (clearCart db uid)) uid) = Some 0)"
proof (intro conjI impI)
  assume "status (snd (addToCart db uid pid q)) = 200"
  then show "persisted_totals_ok (fst (addToCart db uid pid q)) uid"
    by (rule addToCart_totals)
next
  assume "status (snd (updateCartItem db uid pid n)) = 200"
  then show "persisted_totals_ok (fst (updateCartItem db uid pid n)) uid"
    by (rule updateCartItem_totals)
next
  assume "status (snd (removeFromCart db uid pid)) = 200"
  then show "persisted_totals_ok (fst (removeFromCart db uid pid)) uid"
    by (rule removeFromCart_totals)
next
  assume a: "status (snd (clearCart db uid)) = 200"
  from clearCart_totals[OF a] show "persisted_totals_ok (fst (clearCart db uid)) uid"
    by simp
  from clearCart_totals[OF a] show "map_option items (carts (fst (clearCart db uid)) uid) = Some []"
    by simp
  from clearCart_totals[OF a] show "map_option totalItems (carts (fst (clearCart db uid)) uid) = Some 0"
    by simp
  from clearCart_totals[OF a] show "map_option totalPrice (carts (fst (clearCart db uid)) uid) = Some 0"
    by simp
qed

lemmas demo_defs =
  demo_db_def demo_cart_def demo_product_def demo_db2_def demo_catalogue_def demo_items_def
  demo_db3_def demo_empty_db_def demo_db4_def demo_patch_def
  js_less_def js_plus_def to_number_def
  findById_def failure_def ok_def saved_ok_def cart_save_def recomputeTotals_def splice1_def
  Let_def

theorem cart_totals_after_mutation_witness:
  "status (snd (addToCart demo_db ''u1'' ''p1'' (Some (QNumber 2)))) = 200 \<and>
   persisted_totals_ok (fst (addToCart demo_db ''u1'' ''p1'' (Some (QNumber 2)))) ''u1'' \<and>
   status (snd (updateCartItem demo_db ''u1'' ''p1'' 4)) = 200 \<and>
   persisted_totals_ok (fst (updateCartItem demo_db ''u1'' ''p1'' 4)) ''u1'' \<and>
   status (snd (removeFromCart demo_db ''u1'' ''p1'')) = 200 \<and>
   persisted_totals_ok (fst (removeFromCart demo_db ''u1'' ''p1'')) ''u1'' \<and>
   status (snd (clearCart demo_db ''u1'')) = 200 \<and>
   map_option totalItems (carts (fst (clearCart demo_db ''u1'')) ''u1'') = Some 0 \<and>
   map_option totalPrice (carts (fst (clearCart demo_db ''u1'')) ''u1'') = Some 0"
proof -
  have a: "status (snd (addToCart demo_db ''u1'' ''p1'' (Some (QNumber 2)))) = 200"
    by (simp add: addToCart_def demo_defs)
  have b: "status (snd (updateCartItem demo_db ''u1'' ''p1'' 4)) = 200"
    by (simp add: updateCartItem_def demo_defs)
  have c: "status (snd (removeFromCart demo_db ''u1'' ''p1'')) = 200"
    by (simp add: removeFromCart_def demo_defs)
  have d: "status (snd (clearCart demo_db ''u1'')) = 200"
    by (simp add: clearCart_def demo_defs)
  show ?thesis
    using a b c d cart_totals_after_mutation [of demo_db "''u1''" "''p1''" "Some (QNumber 2)" 4]
    by blast
qed

subsection \<open>The validation loop\<close>

lemma validate_items_acc:
  "validate_items ps its errs valid =
     (errs @ concat (map (item_errors ps) its), valid @ filter (item_valid ps) its)"
proof (induction its arbitrary: errs valid)
  case Nil
  show ?case by simp
next
  case (Cons item rest)
  show ?case
    by (simp add: Cons.IH item_errors_def item_valid_def item_populated_active_def
          item_out_of_stock_def split: option.splits)
qed

lemma item_errors_messages:
  "map e_message (item_errors ps item) = expected_item_errors ps item"
  by (simp add: item_errors_def expected_item_errors_def split: option.splits)

lemma item_errors_length: "length (item_errors ps item) \<le> 1"
  by (simp add: item_errors_def split: option.splits)

lemma item_errors_no_price_change:
  "\<not> item_valid ps item \<Longrightarrow>
   list_all (\<lambda>e. e_type e \<noteq> Some ''price_change'') (item_errors ps item)"
  by (auto simp add: item_errors_def item_valid_def item_populated_active_def
          item_out_of_stock_def split: option.splits)

lemma item_errors_invalid: "\<not> item_valid ps item \<Longrightarrow> item_errors ps item \<noteq> []"
  by (auto simp add: item_errors_def item_valid_def item_populated_active_def
          item_out_of_stock_def split: option.splits)

lemma concat_item_errors_Nil:
  "concat (map (item_errors ps) its) = [] \<Longrightarrow> filter (item_valid ps) its = its"
  by (induction its) (use item_errors_invalid in auto)

lemma filter_length_eq: "length (filter P xs) = length xs \<Longrightarrow> filter P xs = xs"
  by (metis filter_True length_filter_less less_irrefl)

lemma valid_item_populated:
  "item_valid ps item \<Longrightarrow> findById ps (item_product item) \<noteq> None"
  by (auto simp add: item_valid_def item_populated_active_def split: option.splits)

lemma json_throws_valid_items:
  "items c = filter (item_valid ps) its \<Longrightarrow>
   cart_json_throws False ps c = (filter (item_valid ps) its \<noteq> [])"
proof -
  assume a: "items c = filter (item_valid ps) its"
  have "cart_json_throws False ps c = (\<exists>item \<in> set (items c). findById ps (item_product item) \<noteq> None)"
    by (auto simp add: cart_json_throws_def mainImage_def list_ex_iff split: option.splits)
  also have "\<dots> = (filter (item_valid ps) its \<noteq> [])"
    using a valid_item_populated[of ps] by (auto simp add: filter_empty_conv)
  finally show ?thesis .
qed

lemma validateCart_all_valid:
  assumes "carts db uid = Some c" and "items c \<noteq> []"
    and "filter (item_valid (products db)) (items c) = items c"
  shows "validateCart db uid = (db, failure 400 SerializationFailed)"
proof -
  from assms(3) have "items c = filter (item_valid (products db)) (items c)" by simp
  then have "cart_json_throws False (products db) c =
               (filter (item_valid (products db)) (items c) \<noteq> [])"
    by (rule json_throws_valid_items)
  with assms have "cart_json_throws False (products db) c" by simp
  with assms show ?thesis by (simp add: validateCart_def validate_items_acc)
qed

lemma validateCart_some_invalid:
  assumes "carts db uid = Some c" and "items c \<noteq> []"
    and "filter (item_valid (products db)) (items c) \<noteq> items c"
  shows "validateCart db uid =
           (fst (cart_save db uid (c\<lparr>items := filter (item_valid (products db)) (items c)\<rparr>)),
            if filter (item_valid (products db)) (items c) \<noteq> []
            then failure 400 SerializationFailed
            else \<lparr>status = 200, success = False, message = None,
                  data = Some \<lparr>v_cart = snd (cart_save db uid (c\<lparr>items := []\<rparr>)),
                                v_isValid = False,
                                v_errors = concat (map (item_errors (products db)) (items c)),
                                v_validItemsCount = 0\<rparr>\<rparr>)"
proof -
  let ?valid = "filter (item_valid (products db)) (items c)"
  let ?saved = "snd (cart_save db uid (c\<lparr>items := ?valid\<rparr>))"
  from assms(3) have e: "concat (map (item_errors (products db)) (items c)) \<noteq> []"
    using concat_item_errors_Nil by blast
  from assms(3) have l: "length ?valid \<noteq> length (items c)"
    using filter_length_eq by blast
  have "items ?saved = ?valid"
    by (simp add: cart_save_def recomputeTotals_def Let_def)
  then have t: "cart_json_throws False (products db) ?saved = (?valid \<noteq> [])"
    by (rule json_throws_valid_items)
  show ?thesis
  proof (cases "?valid = []")
    case True
    with t have "\<not> cart_json_throws False (products db) (snd (cart_save db uid (c\<lparr>items := []\<rparr>)))"
      by simp
    with assms(1,2) e l True show ?thesis
      by (simp add: validateCart_def validate_items_acc case_prod_beta)
  next
    case False
    with t have "cart_json_throws False (products db) ?saved" by simp
    with assms(1,2) e l False show ?thesis
      by (simp add: validateCart_def validate_items_acc case_prod_beta)
  qed
qed

lemma validateCart_empty:
  "(case carts db uid of None \<Rightarrow> True | Some c \<Rightarrow> items c = []) \<Longrightarrow>
   validateCart db uid = (db, failure 400 CartIsEmpty)"
  by (simp add: validateCart_def split: option.splits)

text \<open>What holds of \<^verbatim>\<open>validateCart\<close> for every non-empty cart: the items stored
  afterwards are exactly the items whose product is active and in stock, so a line
  with price drift only is kept and every unavailable or out-of-stock line is removed.
  The response, however, is the 400 of the \<^verbatim>\<open>catch\<close> as soon as one such item
  remains.\<close>

lemma validateCart_stored_items:
  assumes "carts db uid = Some c" and "items c \<noteq> []"
  shows "persisted_items (fst (validateCart db uid)) uid =
           filter (item_valid (products db)) (items c)"
proof (cases "filter (item_valid (products db)) (items c) = items c")
  case True
  show ?thesis
    unfolding validateCart_all_valid[OF assms True]
    using assms(1) True by (simp add: persisted_items_def)
next
  case False
  show ?thesis
    unfolding validateCart_some_invalid[OF assms False]
    by (simp add: persisted_items_def cart_save_def Let_def recomputeTotals_def)
qed

lemma validateCart_fails_with_valid_item:
  assumes "carts db uid = Some c"
    and "filter (item_valid (products db)) (items c) \<noteq> []"
  shows "snd (validateCart db uid) = failure 400 SerializationFailed"
proof -
  from assms(2) have n: "items c \<noteq> []" by auto
  show ?thesis
  proof (cases "filter (item_valid (products db)) (items c) = items c")
    case True
    show ?thesis unfolding validateCart_all_valid[OF assms(1) n True] by simp
  next
    case False
    show ?thesis unfolding validateCart_some_invalid[OF assms(1) n False]
      using assms(2) by simp
  qed
qed

lemmas item_defs =
  item_valid_def item_populated_active_def item_out_of_stock_def item_price_drift_def
  expected_item_errors_def

subsection \<open>validateCart: the response for a cart with a valid item\<close>

text \<open>
  Claim C2. validateCart is stated to return {cart, isValid, errors, validItemsCount}
  for a non-empty cart. The user's cart holds one line, three of a product that is
  active, in stock and unchanged in price, so nothing is to be removed and
  no error is to be reported. The handler answers this request with status 400 and the
  message of a TypeError, and without data: it populates the products without their
  images, and the mainImage virtual, evaluated when the response is serialised, reads
  the images.
\<close>

theorem validateCart_answers_400_for_valid_cart:
  "carts demo_db ''u1'' = Some demo_cart \<and>
   items demo_cart = [\<lparr>item_product = ''p1'', item_quantity = 3, item_price = 10\<rparr>] \<and>
   item_valid (products demo_db) \<lparr>item_product = ''p1'', item_quantity = 3, item_price = 10\<rparr> \<and>
   \<not> item_price_drift (products demo_db)
       \<lparr>item_product = ''p1'', item_quantity = 3, item_price = 10\<rparr> \<and>
   validateCart demo_db ''u1'' = (demo_db, failure 400 SerializationFailed)"
proof -
  have a: "carts demo_db ''u1'' = Some demo_cart"
    by (simp add: demo_defs)
  have b: "items demo_cart = [\<lparr>item_product = ''p1'', item_quantity = 3, item_price = 10\<rparr>]"
    by (simp add: demo_defs)
  have c: "item_valid (products demo_db)
             \<lparr>item_product = ''p1'', item_quantity = 3, item_price = 10\<rparr>"
    by (simp add: item_defs demo_defs)
  have d: "\<not> item_price_drift (products demo_db)
               \<lparr>item_product = ''p1'', item_quantity = 3, item_price = 10\<rparr>"
    by (simp add: item_defs demo_defs price_changed_demo)
  from b c have e: "filter (item_valid (products demo_db)) (items demo_cart) = items demo_cart"
    by simp
  from b have f: "items demo_cart \<noteq> []" by simp
  from a b c d validateCart_all_valid[OF a f e] show ?thesis by simp
qed

subsection \<open>validateCart: one error per line item\<close>

text \<open>
  Claim C10. validateCart produces at most one error entry for each line item, with a
  fixed precedence: a missing or inactive product gives only the unavailability error;
  otherwise a quantity above the inventory gives only the insufficient-stock error;
  price drift is checked, and the item counted as valid, only when both earlier checks
  pass. An unavailable or out-of-stock item therefore never yields a price-change
  error and is not counted as valid.
\<close>

theorem validateCart_one_error_per_item:
  "map e_message (fst (validate_items ps its [] [])) =
     concat (map (expected_item_errors ps) its) \<and>
   snd (validate_items ps its [] []) = filter (item_valid ps) its \<and>
   length (fst (validate_items ps [item] [] [])) \<le> 1 \<and>
   (\<not> item_populated_active ps item \<or> item_out_of_stock ps item \<longrightarrow>
      list_all (\<lambda>e. e_type e \<noteq> Some ''price_change'') (fst (validate_items ps [item] [] [])) \<and>
      snd (validate_items ps [item] [] []) = [])"
proof -
  have "map e_message (fst (validate_items ps its [] [])) =
          concat (map (expected_item_errors ps) its)"
    by (simp add: validate_items_acc map_concat item_errors_messages comp_def)
  moreover have "snd (validate_items ps its [] []) = filter (item_valid ps) its"
    by (simp add: validate_items_acc)
  moreover have "length (fst (validate_items ps [item] [] [])) \<le> 1"
    using item_errors_length[of ps item] by (simp only: item_errors_def)
  moreover have "\<not> item_populated_active ps item \<or> item_out_of_stock ps item \<longrightarrow>
      list_all (\<lambda>e. e_type e \<noteq> Some ''price_change'') (fst (validate_items ps [item] [] [])) \<and>
      snd (validate_items ps [item] [] []) = []"
  proof
    assume "\<not> item_populated_active ps item \<or> item_out_of_stock ps item"
    then have inv: "\<not> item_valid ps item"
      by (auto simp add: item_valid_def)
    have "snd (validate_items ps [item] [] []) = filter (item_valid ps) [item]"
      by (simp only: validate_items_acc snd_conv append_Nil)
    with inv have "snd (validate_items ps [item] [] []) = []"
      by (simp del: validate_items.simps)
    with item_errors_no_price_change[OF inv]
    show "list_all (\<lambda>e. e_type e \<noteq> Some ''price_change'')
            (fst (validate_items ps [item] [] [])) \<and>
          snd (validate_items ps [item] [] []) = []"
      by (simp only: item_errors_def simp_thms)
  qed
  ultimately show ?thesis by blast
qed

theorem validateCart_one_error_per_item_witness:
  "map e_message (fst (validate_items demo_catalogue demo_items [] [])) =
     [ProductNoLongerAvailable, OnlyAvailableRequested 1 2, PriceHasChanged 10 12,
      ProductNoLongerAvailable] \<and>
   item_out_of_stock demo_catalogue \<lparr>item_product = ''p3'', item_quantity = 2, item_price = 9\<rparr> \<and>
   item_price_drift demo_catalogue \<lparr>item_product = ''p3'', item_quantity = 2, item_price = 9\<rparr> \<and>
   list_all (\<lambda>e. e_type e \<noteq> Some ''price_change'')
     (fst (validate_items demo_catalogue
        [\<lparr>item_product = ''p3'', item_quantity = 2, item_price = 9\<rparr>] [] [])) \<and>
   snd (validate_items demo_catalogue
        [\<lparr>item_product = ''p3'', item_quantity = 2, item_price = 9\<rparr>] [] []) = []"
proof -
  have a: "concat (map (expected_item_errors demo_catalogue) demo_items) =
     [ProductNoLongerAvailable, OnlyAvailableRequested 1 2, PriceHasChanged 10 12,
      ProductNoLongerAvailable]"
    by (simp add: item_defs demo_defs price_changed_demo)
  have b: "item_out_of_stock demo_catalogue
             \<lparr>item_product = ''p3'', item_quantity = 2, item_price = 9\<rparr>"
    by (simp add: item_defs demo_defs price_changed_demo)
  have c: "item_price_drift demo_catalogue
             \<lparr>item_product = ''p3'', item_quantity = 2, item_price = 9\<rparr>"
    by (simp add: item_defs demo_defs price_changed_demo)
  show ?thesis
    using a b c
      validateCart_one_error_per_item
        [of demo_catalogue demo_items
            "\<lparr>item_product = ''p3'', item_quantity = 2, item_price = 9\<rparr>"]
    by (simp del: validate_items.simps)
qed

subsection \<open>addToCart on an existing line item\<close>




text \<open>A quantity that arrives as a string is outside the amended claim. There
  \<^verbatim>\<open>3 + "2"\<close> is the string \<^verbatim>\<open>"32"\<close>: with 5 in stock the merge is refused, with
  40 in stock the line is stored with quantity 32.\<close>

lemma addToCart_string_quantity:
  "addToCart demo_db ''u1'' ''p1'' (Some (QString ''2'')) =
     (demo_db, failure 400 (CannotAddOnlyMore (QString ''2'') 2)) \<and>
   persisted_items (fst (addToCart demo_db_stock40 ''u1'' ''p1'' (Some (QString ''2'')))) ''u1'' =
     [\<lparr>item_product = ''p1'', item_quantity = 32, item_price = 10\<rparr>]"
  by (simp add: addToCart_def demo_defs demo_db_stock40_def persisted_items_def show_int_def
        show_nat.simps string_to_number_def digit_value_def)

subsection \<open>applyCoupon\<close>

lemma validCoupons_nonneg: "validCoupons code = Some cp \<Longrightarrow> 0 \<le> discount cp"
  by (auto simp add: validCoupons_def split: if_splits)

lemma fixed_final_price:
  assumes "0 \<le> d"
  shows "(\<forall>f. fsub t (min d t) = Some f \<longrightarrow> 0 \<le> f) \<and>
         (\<bar>t\<bar> < 2 ^ 1024 - 2 ^ 970 \<longrightarrow> fsub t (min d t) \<noteq> None)"
proof (intro conjI allI impI)
  fix f assume "fsub t (min d t) = Some f"
  then have "to_double (t - min d t) = Some f" by (simp add: fsub_def)
  moreover have "0 \<le> t - min d t" by simp
  ultimately show "0 \<le> f" using to_double_nonneg by blast
next
  assume "\<bar>t\<bar> < 2 ^ 1024 - 2 ^ 970"
  with assms have "\<bar>t - min d t\<bar> < 2 ^ 1024 - 2 ^ 970"
    by (simp add: min_def abs_if split: if_splits)
  then show "fsub t (min d t) \<noteq> None"
    unfolding fsub_def by (rule to_double_finite)
qed

text \<open>
  Claim C4 (as amended). For a non-empty cart and a known coupon code, applyCoupon
  answers 200. For a percentage coupon discountAmount is (totalPrice * pct) / 100 as
  double-precision arithmetic computes it: the product rounded to a double, then the
  quotient rounded to a double; it need not be the exact value. For a fixed coupon
  discountAmount = min(fixedAmount, totalPrice). finalPrice is totalPrice -
  discountAmount, rounded to a double; for a fixed coupon it is a finite number and
  never negative. Whatever the request, the database after applyCoupon is the database
  before it: no cart field is changed and nothing is written.
\<close>

theorem applyCoupon_discount:
  "fst (applyCoupon db uid code) = db \<and>
   (validCoupons code = Some cp \<and> carts db uid = Some c \<and> items c \<noteq> [] \<longrightarrow>
      status (snd (applyCoupon db uid code)) = 200 \<and>
      map_option originalPrice (data (snd (applyCoupon db uid code))) = Some (totalPrice c) \<and>
      (ctype cp = Percentage \<longrightarrow>
         map_option discountAmount (data (snd (applyCoupon db uid code))) =
           Some (case fmul (totalPrice c) (discount cp) of
                   None \<Rightarrow> None | Some product \<Rightarrow> fdiv product 100)) \<and>
      (ctype cp = Fixed \<longrightarrow>
         map_option discountAmount (data (snd (applyCoupon db uid code))) =
           Some (Some (min (discount cp) (totalPrice c))) \<and>
         (\<forall>f. map_option finalPrice (data (snd (applyCoupon db uid code))) = Some (Some f) \<longrightarrow>
              0 \<le> f) \<and>
         (\<bar>totalPrice c\<bar> < 2 ^ 1024 - 2 ^ 970 \<longrightarrow>
            map_option finalPrice (data (snd (applyCoupon db uid code))) \<noteq> Some None)) \<and>
      (\<forall>d. data (snd (applyCoupon db uid code)) = Some d \<longrightarrow>
         finalPrice d =
           (case discountAmount d of None \<Rightarrow> None | Some a \<Rightarrow> fsub (totalPrice c) a)))"
proof (intro conjI impI)
  show "fst (applyCoupon db uid code) = db"
    by (simp add: applyCoupon_def Let_def split: option.splits)
next
  assume a: "validCoupons code = Some cp \<and> carts db uid = Some c \<and> items c \<noteq> []"
  then show "status (snd (applyCoupon db uid code)) = 200"
    by (simp add: applyCoupon_def ok_def Let_def)
  from a show "map_option originalPrice (data (snd (applyCoupon db uid code))) =
                 Some (totalPrice c)"
    by (simp add: applyCoupon_def ok_def Let_def)
  from a show "\<forall>d. data (snd (applyCoupon db uid code)) = Some d \<longrightarrow>
         finalPrice d =
           (case discountAmount d of None \<Rightarrow> None | Some a \<Rightarrow> fsub (totalPrice c) a)"
    by (auto simp add: applyCoupon_def ok_def Let_def)
next
  assume a: "validCoupons code = Some cp \<and> carts db uid = Some c \<and> items c \<noteq> []"
    and p: "ctype cp = Percentage"
  then show "map_option discountAmount (data (snd (applyCoupon db uid code))) =
           Some (case fmul (totalPrice c) (discount cp) of
                   None \<Rightarrow> None | Some product \<Rightarrow> fdiv product 100)"
    by (simp add: applyCoupon_def ok_def Let_def)
next
  assume a: "validCoupons code = Some cp \<and> carts db uid = Some c \<and> items c \<noteq> []"
    and f: "ctype cp = Fixed"
  then show "map_option discountAmount (data (snd (applyCoupon db uid code))) =
           Some (Some (min (discount cp) (totalPrice c)))"
    by (simp add: applyCoupon_def ok_def Let_def)
next
  assume a: "validCoupons code = Some cp \<and> carts db uid = Some c \<and> items c \<noteq> []"
    and f: "ctype cp = Fixed"
  from a have n: "0 \<le> discount cp" using validCoupons_nonneg by blast
  from a f have e: "map_option finalPrice (data (snd (applyCoupon db uid code))) =
                      Some (fsub (totalPrice c) (min (discount cp) (totalPrice c)))"
    by (simp add: applyCoupon_def ok_def Let_def)
  show "\<forall>f. map_option finalPrice (data (snd (applyCoupon db uid code))) = Some (Some f) \<longrightarrow>
              0 \<le> f"
    unfolding e using fixed_final_price[OF n, of "totalPrice c"] by simp
next
  assume a: "validCoupons code = Some cp \<and> carts db uid = Some c \<and> items c \<noteq> []"
    and f: "ctype cp = Fixed"
    and b: "\<bar>totalPrice c\<bar> < 2 ^ 1024 - 2 ^ 970"
  from a have n: "0 \<le> discount cp" using validCoupons_nonneg by blast
  from a f have e: "map_option finalPrice (data (snd (applyCoupon db uid code))) =
                      Some (fsub (totalPrice c) (min (discount cp) (totalPrice c)))"
    by (simp add: applyCoupon_def ok_def Let_def)
  show "map_option finalPrice (data (snd (applyCoupon db uid code))) \<noteq> Some None"
    unfolding e using fixed_final_price[OF n, of "totalPrice c"] b by simp
qed

theorem applyCoupon_discount_witness:
  "validCoupons ''FLAT50'' = Some \<lparr>discount = 50, ctype = Fixed\<rparr> \<and>
   validCoupons ''SAVE10'' = Some \<lparr>discount = 10, ctype = Percentage\<rparr> \<and>
   carts demo_db ''u1'' = Some demo_cart \<and> items demo_cart \<noteq> [] \<and>
   totalPrice demo_cart = 30 \<and>
   fst (applyCoupon demo_db ''u1'' ''FLAT50'') = demo_db \<and>
   map_option discountAmount (data (snd (applyCoupon demo_db ''u1'' ''FLAT50''))) =
     Some (Some 30) \<and>
   map_option finalPrice (data (snd (applyCoupon demo_db ''u1'' ''FLAT50''))) = Some (Some 0) \<and>
   map_option discountAmount (data (snd (applyCoupon demo_db ''u1'' ''SAVE10''))) =
     Some (Some 3) \<and>
   map_option finalPrice (data (snd (applyCoupon demo_db ''u1'' ''SAVE10''))) = Some (Some 27)"
proof -
  have a: "validCoupons ''FLAT50'' = Some \<lparr>discount = 50, ctype = Fixed\<rparr>"
    "validCoupons ''SAVE10'' = Some \<lparr>discount = 10, ctype = Percentage\<rparr>"
    by (simp_all add: validCoupons_def)
  have b: "carts demo_db ''u1'' = Some demo_cart" "items demo_cart \<noteq> []"
    "totalPrice demo_cart = 30"
    by (simp_all add: demo_defs)
  have c: "map_option finalPrice (data (snd (applyCoupon demo_db ''u1'' ''FLAT50''))) =
             Some (Some 0)"
    "map_option finalPrice (data (snd (applyCoupon demo_db ''u1'' ''SAVE10''))) =
             Some (Some 27)"
    using a b by (simp_all add: applyCoupon_def ok_def Let_def small_arithmetic)
  have t1: "map_option discountAmount (data (snd (applyCoupon demo_db ''u1'' ''FLAT50''))) =
              Some (Some (min 50 (totalPrice demo_cart)))"
    using a(1) b(1,2)
      applyCoupon_discount
        [of demo_db "''u1''" "''FLAT50''" "\<lparr>discount = 50, ctype = Fixed\<rparr>" demo_cart]
    by simp
  have t2: "map_option discountAmount (data (snd (applyCoupon demo_db ''u1'' ''SAVE10''))) =
              Some (case fmul (totalPrice demo_cart) 10 of
                      None \<Rightarrow> None | Some product \<Rightarrow> fdiv product 100)"
    using a(2) b(1,2)
      applyCoupon_discount
        [of demo_db "''u1''" "''SAVE10''" "\<lparr>discount = 10, ctype = Percentage\<rparr>" demo_cart]
    by simp
  have t3: "fst (applyCoupon demo_db ''u1'' ''FLAT50'') = demo_db"
    using applyCoupon_discount[of demo_db "''u1''" "''FLAT50''"] by blast
  from a b c t1 t2 t3 show ?thesis by (simp add: small_arithmetic)
qed

text \<open>The claim as first stated has the percentage discount equal to totalPrice * pct /
  100 exactly. For the stored total 19.99 and SAVE10 the handler returns
  1.9989999999999997, which is not a tenth of the stored total.\<close>

theorem applyCoupon_percentage_counterexample:
  "map_option totalPrice (carts demo_db4 ''u1'') = Some (5626684784446013 / 281474976710656) \<and>
   validCoupons ''SAVE10'' = Some \<lparr>discount = 10, ctype = Percentage\<rparr> \<and>
   map_option discountAmount (data (snd (applyCoupon demo_db4 ''u1'' ''SAVE10''))) =
     Some (Some (2250673913778405 / 1125899906842624)) \<and>
   (2250673913778405 / 1125899906842624 :: rat) \<noteq>
     (5626684784446013 / 281474976710656) * 10 / 100"
  by (simp add: applyCoupon_def demo_defs validCoupons_def fmul_19_99_10 fdiv_199_9_100)

subsection \<open>Snapshot price on update and on merge\<close>

text \<open>
  Claim C5. A successful updateCartItem overwrites the stored snapshot price of the
  line item with the current catalogue price of the product (and sets its quantity);
  a successful addToCart that merges into an existing line item changes only that
  line's quantity (to the sum, for a quantity given as a number) and leaves its stored
  snapshot price as it was.
\<close>

theorem snapshot_price_update_and_merge:
  assumes "carts db uid = Some c"
    and "findIndex (\<lambda>item. item_product item = pid) (items c) = Some i"
    and "findById (products db) pid = Some P"
  shows "(status (snd (updateCartItem db uid pid n)) = 200 \<longrightarrow>
            persisted_items (fst (updateCartItem db uid pid n)) uid =
              (items c)[i := (items c ! i)\<lparr>item_quantity := n, item_price := p_price P\<rparr>] \<and>
            item_price (persisted_items (fst (updateCartItem db uid pid n)) uid ! i) =
              p_price P) \<and>
         (status (snd (addToCart db uid pid q)) = 200 \<longrightarrow>
            persisted_items (fst (addToCart db uid pid q)) uid =
              (items c)[i := (items c ! i)
                          \<lparr>item_quantity :=
                             item_quantity
                               (persisted_items (fst (addToCart db uid pid q)) uid ! i)\<rparr>] \<and>
            item_price (persisted_items (fst (addToCart db uid pid q)) uid ! i) =
              item_price (items c ! i) \<and>
            (\<forall>q2. requested_number q = Some q2 \<longrightarrow>
               item_quantity (persisted_items (fst (addToCart db uid pid q)) uid ! i) =
                 item_quantity (items c ! i) + q2))"
  using assms findIndex_Some[OF assms(2)]
  by (auto simp add: updateCartItem_def addToCart_def requested_number_def js_less_def
        js_plus_def to_number_def Let_def saved_ok_def ok_def cart_save_def failure_def
        recomputeTotals_def persisted_items_def
        split: option.splits if_splits js_quantity.splits)

theorem snapshot_price_update_and_merge_witness:
  "status (snd (updateCartItem demo_db3 ''u1'' ''p1'' 4)) = 200 \<and>
   persisted_items (fst (updateCartItem demo_db3 ''u1'' ''p1'' 4)) ''u1'' =
     [\<lparr>item_product = ''p1'', item_quantity = 4, item_price = 12\<rparr>] \<and>
   status (snd (addToCart demo_db3 ''u1'' ''p1'' (Some (QNumber 1)))) = 200 \<and>
   persisted_items (fst (addToCart demo_db3 ''u1'' ''p1'' (Some (QNumber 1)))) ''u1'' =
     [\<lparr>item_product = ''p1'', item_quantity = 4, item_price = 10\<rparr>]"
proof -
  have h: "carts demo_db3 ''u1'' = Some demo_cart"
    "findIndex (\<lambda>item. item_product item = ''p1'') (items demo_cart) = Some 0"
    "findById (products demo_db3) ''p1'' = Some (demo_product\<lparr>p_price := 12\<rparr>)"
    by (simp_all add: demo_defs)
  have a: "status (snd (updateCartItem demo_db3 ''u1'' ''p1'' 4)) = 200"
    by (simp add: updateCartItem_def demo_defs)
  have b: "status (snd (addToCart demo_db3 ''u1'' ''p1'' (Some (QNumber 1)))) = 200"
    by (simp add: addToCart_def demo_defs)
  have r: "requested_number (Some (QNumber 1)) = Some 1"
    by (simp add: requested_number_def)
  have m: "persisted_items (fst (addToCart demo_db3 ''u1'' ''p1'' (Some (QNumber 1)))) ''u1'' =
     [\<lparr>item_product = ''p1'', item_quantity = 4, item_price = 10\<rparr>]"
    by (simp add: addToCart_def demo_defs persisted_items_def)
  show ?thesis
    using a b r m snapshot_price_update_and_merge[OF h, of 4 "Some (QNumber 1)"]
    by (simp add: demo_cart_def demo_product_def)
qed

subsection \<open>getCart\<close>

lemma getCart_filters:
  "status (snd (getCart db uid)) = 200 \<and>
   map_option items (data (snd (getCart db uid))) =
     Some (filter (item_populated_active (products db)) (persisted_items db uid))"
  by (auto simp add: getCart_def persisted_items_def cart_create_def cart_save_def Let_def
        recomputeTotals_def split: option.splits prod.splits)

text \<open>
  Claim C6. getCart is stated to persist the filtered cart exactly when the filtering
  changed the cart's item count. The handler compares the number of remaining line
  items with the stored totalItems, which is the sum of the quantities. For the user
  whose cart holds one line of quantity 3 for an active product, the filter removes
  nothing, the log of writes is empty before the request, and yet the request saves
  the cart.
\<close>

theorem getCart_saves_unfiltered_cart:
  "carts demo_db ''u1'' = Some demo_cart \<and>
   filter (item_populated_active (products demo_db)) (items demo_cart) = items demo_cart \<and>
   length (items demo_cart) = 1 \<and> totalItems demo_cart = 3 \<and>
   writes demo_db = [] \<and>
   writes (fst (getCart demo_db ''u1'')) = [CartSaved ''u1'']"
  by (simp add: getCart_def demo_defs item_populated_active_def)

subsection \<open>getCartSummary\<close>

text \<open>
  Claim C7 (as amended). getCartSummary never fails and changes nothing: it answers
  200. For a cart with items it returns totalItems, totalPrice, itemsCount and
  isEmpty = false. For an absent or empty cart it returns totalItems = 0,
  totalPrice = 0 and isEmpty = true, and no itemsCount field.
\<close>

theorem getCartSummary_shape:
  "fst (getCartSummary db uid) = db \<and>
   status (snd (getCartSummary db uid)) = 200 \<and> success (snd (getCartSummary db uid)) \<and>
   (cart_absent_or_empty db uid \<longrightarrow>
      data (snd (getCartSummary db uid)) =
        Some \<lparr>s_totalItems = 0, s_totalPrice = 0, s_itemsCount = None, s_isEmpty = True\<rparr>) \<and>
   (carts db uid = Some c \<and> items c \<noteq> [] \<longrightarrow>
      data (snd (getCartSummary db uid)) =
        Some \<lparr>s_totalItems = totalItems c, s_totalPrice = totalPrice c,
              s_itemsCount = Some (length (items c)), s_isEmpty = False\<rparr>)"
  by (auto simp add: getCartSummary_def cart_absent_or_empty_def split: option.splits)

theorem getCartSummary_shape_witness:
  "cart_absent_or_empty demo_empty_db ''u1'' \<and>
   data (snd (getCartSummary demo_empty_db ''u1'')) =
     Some \<lparr>s_totalItems = 0, s_totalPrice = 0, s_itemsCount = None, s_isEmpty = True\<rparr> \<and>
   carts demo_db ''u1'' = Some demo_cart \<and> items demo_cart \<noteq> [] \<and>
   data (snd (getCartSummary demo_db ''u1'')) =
     Some \<lparr>s_totalItems = 3, s_totalPrice = 30, s_itemsCount = Some 1, s_isEmpty = False\<rparr>"
proof -
  have a: "cart_absent_or_empty demo_empty_db ''u1''"
    by (simp add: cart_absent_or_empty_def demo_defs)
  have b: "carts demo_db ''u1'' = Some demo_cart" "items demo_cart \<noteq> []"
    by (simp_all add: demo_defs)
  show ?thesis
    using a b getCartSummary_shape[of demo_empty_db "''u1''" demo_cart]
      getCartSummary_shape[of demo_db "''u1''" demo_cart]
    by (simp add: demo_cart_def)
qed

text \<open>The claim as first stated has itemsCount in every summary. For a user without
  a cart the summary has none.\<close>

theorem getCartSummary_itemsCount_counterexample:
  "carts demo_empty_db ''u1'' = None \<and>
   status (snd (getCartSummary demo_empty_db ''u1'')) = 200 \<and>
   map_option s_itemsCount (data (snd (getCartSummary demo_empty_db ''u1''))) = Some None"
  by (simp add: getCartSummary_def demo_defs)

subsection \<open>Ratings and reviews\<close>

lemma foldl_rating_sum:
  "foldl (\<lambda>acc review. acc + r_rating review) a rs = a + sum_list (map r_rating rs)"
  by (induction rs arbitrary: a) (simp_all add: add.assoc)

lemma math_round_near: "\<bar>math_round x - x\<bar> \<le> 1 / 2"
proof -
  have "of_int \<lfloor>x + 1 / 2\<rfloor> \<le> x + 1 / 2" by (rule of_int_floor_le)
  moreover have "x + 1 / 2 < of_int \<lfloor>x + 1 / 2\<rfloor> + 1" by linarith
  ultimately show ?thesis unfolding math_round_def by linarith
qed

lemma rounded_math_round: "rounded_to_one_decimal (math_round (m * 10) / 10) m"
proof -
  have "\<bar>math_round (m * 10) / 10 - m\<bar> \<le> 1 / 20"
    using math_round_near[of "m * 10"] by linarith
  moreover have "of_int \<lfloor>math_round (m * 10) / 10 * 10\<rfloor> = math_round (m * 10) / 10 * 10"
    by (simp add: math_round_def)
  ultimately show ?thesis by (simp only: rounded_to_one_decimal_def simp_thms)
qed

lemma calculateAverageRating_invariant: "ratings_invariant (calculateAverageRating p)"
  using rounded_math_round[of "mean (map r_rating (reviews p))"]
  by (simp add: ratings_invariant_def calculateAverageRating_def Let_def foldl_rating_sum mean_def)

lemma calculateAverageRating_reviews: "reviews (calculateAverageRating p) = reviews p"
  by (simp add: calculateAverageRating_def Let_def)

lemma find_p_id: "find (\<lambda>p. p_id p = i) ps = Some P \<Longrightarrow> p_id P = i"
  by (induction ps) (auto split: if_splits)

lemma find_after_save:
  "find (\<lambda>p. p_id p = p_id P') ps = Some P \<Longrightarrow>
   find (\<lambda>p. p_id p = p_id P') (map (\<lambda>q. if p_id q = p_id P' then P' else q) ps) = Some P'"
  by (induction ps) (auto split: if_splits)

lemma findById_product_save:
  assumes "findById (products db) i = Some P" and "p_id P' = i"
  shows "findById (products (product_save db P')) i = Some P'"
proof -
  from assms have "find (\<lambda>p. p_id p = p_id P') (products db) = Some P"
    by (simp add: findById_def)
  then have "find (\<lambda>p. p_id p = p_id P')
               (map (\<lambda>q. if p_id q = p_id P' then P' else q) (products db)) = Some P'"
    by (rule find_after_save)
  then show ?thesis
    using assms(2) by (simp add: findById_def product_save_def)
qed

lemma addReview_created:
  assumes "findById (products db) i = Some P"
    and "status (snd (addReview db i uid rating comment)) = 201"
  shows "fst (addReview db i uid rating comment) =
           product_save db
             (calculateAverageRating
                (P\<lparr>reviews := reviews P @
                     [\<lparr>r_user = uid, r_rating = rating, r_comment = comment\<rparr>]\<rparr>))"
proof (cases "find (\<lambda>r. r_user r = uid) (reviews P)")
  case (Some r)
  with assms show ?thesis by (simp add: addReview_def failure_def)
next
  case None
  show ?thesis
  proof (cases "review_valid \<lparr>r_user = uid, r_rating = rating, r_comment = comment\<rparr> \<and>
                ratings_valid (calculateAverageRating
                (P\<lparr>reviews := reviews P @
                     [\<lparr>r_user = uid, r_rating = rating, r_comment = comment\<rparr>]\<rparr>))")
    case True
    with assms(1) None show ?thesis by (simp add: addReview_def Let_def)
  next
    case False
    with assms None show ?thesis by (simp add: addReview_def Let_def failure_def)
  qed
qed


lemma math_round_40: "math_round 40 = 40"
proof -
  have "\<lfloor>(40::rat) + 1 / 2\<rfloor> = 40" by linarith
  then show ?thesis by (simp only: math_round_def of_int_numeral)
qed

lemma math_round_85_2: "math_round (85 / 2) = 43"
proof -
  have "\<lfloor>(85::rat) / 2 + 1 / 2\<rfloor> = 43" by linarith
  then show ?thesis by (simp only: math_round_def of_int_numeral)
qed

text \<open>What holds of the ratings: \<^verbatim>\<open>calculateAverageRating\<close> establishes the invariant
  on every product and leaves the reviews as they are, and the product stored by a
  successful \<^verbatim>\<open>addReview\<close> has the new review appended and satisfies the invariant.
  Reviews rated 5, 4 and 3 give average 4.0 and count 3.\<close>

lemma ratings_after_calculation_and_addReview:
  "ratings_invariant (calculateAverageRating p) \<and>
   reviews (calculateAverageRating p) = reviews p \<and>
   (reviews p = [] \<longrightarrow>
      ratings_average (calculateAverageRating p) = 0 \<and>
      ratings_count (calculateAverageRating p) = 0) \<and>
   (findById (products db) i = Some P \<and>
    status (snd (addReview db i uid rating comment)) = 201 \<longrightarrow>
      (case findById (products (fst (addReview db i uid rating comment))) i of
         None \<Rightarrow> False
       | Some P' \<Rightarrow>
           reviews P' =
             reviews P @ [\<lparr>r_user = uid, r_rating = rating, r_comment = comment\<rparr>] \<and>
           ratings_invariant P')) \<and>
   ratings_average (calculateAverageRating (p\<lparr>reviews := demo_reviews\<rparr>)) = 4 \<and>
   ratings_count (calculateAverageRating (p\<lparr>reviews := demo_reviews\<rparr>)) = 3"
proof (intro conjI impI)
  show "ratings_invariant (calculateAverageRating p)"
    by (rule calculateAverageRating_invariant)
  show "reviews (calculateAverageRating p) = reviews p"
    by (rule calculateAverageRating_reviews)
  show "ratings_average (calculateAverageRating p) = 0" if "reviews p = []"
    using that by (simp add: calculateAverageRating_def)
  show "ratings_count (calculateAverageRating p) = 0" if "reviews p = []"
    using that by (simp add: calculateAverageRating_def)
  show "ratings_average (calculateAverageRating (p\<lparr>reviews := demo_reviews\<rparr>)) = 4"
    by (simp add: calculateAverageRating_def demo_reviews_def math_round_40 Let_def)
  show "ratings_count (calculateAverageRating (p\<lparr>reviews := demo_reviews\<rparr>)) = 3"
    by (simp add: calculateAverageRating_def demo_reviews_def Let_def)
next
  assume a: "findById (products db) i = Some P \<and>
    status (snd (addReview db i uid rating comment)) = 201"
  let ?P' = "calculateAverageRating
                (P\<lparr>reviews := reviews P @
                     [\<lparr>r_user = uid, r_rating = rating, r_comment = comment\<rparr>]\<rparr>)"
  from a have "find (\<lambda>p. p_id p = i) (products db) = Some P"
    by (simp add: findById_def)
  then have pid: "p_id P = i" by (rule find_p_id)
  then have pid': "p_id ?P' = i" by (simp add: calculateAverageRating_def Let_def)
  from a have "fst (addReview db i uid rating comment) = product_save db ?P'"
    using addReview_created by blast
  then have "findById (products (fst (addReview db i uid rating comment))) i = Some ?P'"
    using findById_product_save[of db i P ?P'] a pid' by simp
  then show "case findById (products (fst (addReview db i uid rating comment))) i of
         None \<Rightarrow> False
       | Some P' \<Rightarrow>
           reviews P' =
             reviews P @ [\<lparr>r_user = uid, r_rating = rating, r_comment = comment\<rparr>] \<and>
           ratings_invariant P'"
    by (simp add: calculateAverageRating_invariant calculateAverageRating_reviews)
qed

lemma ratings_after_addReview_example:
  "reviews demo_product = [] \<and>
   ratings_average (calculateAverageRating demo_product) = 0 \<and>
   ratings_count (calculateAverageRating demo_product) = 0 \<and>
   findById (products demo_reviewed_db) ''p1'' =
     Some (calculateAverageRating (demo_product\<lparr>reviews := demo_reviews\<rparr>)) \<and>
   status (snd (addReview demo_reviewed_db ''p1'' ''u4'' 5 ''superb'')) = 201 \<and>
   map_option ratings_invariant
     (findById (products (fst (addReview demo_reviewed_db ''p1'' ''u4'' 5 ''superb''))) ''p1'') =
     Some True \<and>
   map_option ratings_average
     (findById (products (fst (addReview demo_reviewed_db ''p1'' ''u4'' 5 ''superb''))) ''p1'') =
     Some (43 / 10) \<and>
   map_option ratings_count
     (findById (products (fst (addReview demo_reviewed_db ''p1'' ''u4'' 5 ''superb''))) ''p1'') =
     Some 4"
proof -
  have a: "findById (products demo_reviewed_db) ''p1'' =
     Some (calculateAverageRating (demo_product\<lparr>reviews := demo_reviews\<rparr>))"
    by (simp add: demo_reviewed_db_def findById_def calculateAverageRating_def Let_def
          demo_product_def demo_reviews_def)
  have b: "status (snd (addReview demo_reviewed_db ''p1'' ''u4'' 5 ''superb'')) = 201"
    by (simp add: addReview_def demo_reviewed_db_def findById_def calculateAverageRating_def
          Let_def demo_product_def demo_reviews_def math_round_40 math_round_85_2
          review_valid_def ratings_valid_def)
  have c: "map_option ratings_average
     (findById (products (fst (addReview demo_reviewed_db ''p1'' ''u4'' 5 ''superb''))) ''p1'') =
     Some (43 / 10)"
    by (simp add: addReview_def demo_reviewed_db_def findById_def calculateAverageRating_def
          Let_def demo_product_def demo_reviews_def math_round_40 math_round_85_2
          review_valid_def ratings_valid_def product_save_def)
  have d: "map_option ratings_count
     (findById (products (fst (addReview demo_reviewed_db ''p1'' ''u4'' 5 ''superb''))) ''p1'') =
     Some 4"
    by (simp add: addReview_def demo_reviewed_db_def findById_def calculateAverageRating_def
          Let_def demo_product_def demo_reviews_def math_round_40 math_round_85_2
          review_valid_def ratings_valid_def product_save_def)
  have e: "reviews demo_product = []"
    by (simp add: demo_product_def)
  show ?thesis
    using a b c d e
      ratings_after_calculation_and_addReview
        [of demo_product demo_reviewed_db "''p1''"
            "calculateAverageRating (demo_product\<lparr>reviews := demo_reviews\<rparr>)"
            "''u4''" 5 "''superb''"]
    by (auto split: option.splits)
qed


text \<open>
  Claim C8. The ratings are stated to follow the review list whenever it changes.
  The catalogue holds a product with three reviews, average 4 and count 3, and the
  invariant holds of it. An update of this product whose body sets the reviews to the
  empty list passes the validators and is answered with 200; the stored product then
  has no reviews and still average 4 and count 3, where both should be zero:
  updateProduct does not recompute the ratings.
\<close>

theorem updateProduct_leaves_ratings_stale:
  "map_option ratings_invariant (findById (products demo_reviewed_db) ''p1'') = Some True \<and>
   map_option reviews (findById (products demo_reviewed_db) ''p1'') = Some demo_reviews \<and>
   u_reviews demo_patch = Some [] \<and>
   status (snd (updateProduct demo_reviewed_db ''p1'' demo_patch)) = 200 \<and>
   map_option reviews
     (findById (products (fst (updateProduct demo_reviewed_db ''p1'' demo_patch))) ''p1'') =
     Some [] \<and>
   map_option ratings_average
     (findById (products (fst (updateProduct demo_reviewed_db ''p1'' demo_patch))) ''p1'') =
     Some 4 \<and>
   map_option ratings_count
     (findById (products (fst (updateProduct demo_reviewed_db ''p1'' demo_patch))) ''p1'') =
     Some 3 \<and>
   map_option ratings_invariant
     (findById (products (fst (updateProduct demo_reviewed_db ''p1'' demo_patch))) ''p1'') =
     Some False"
proof -
  have f: "findById (products demo_reviewed_db) ''p1'' =
             Some (calculateAverageRating (demo_product\<lparr>reviews := demo_reviews\<rparr>))"
    by (simp add: demo_reviewed_db_def findById_def calculateAverageRating_def Let_def
          demo_product_def demo_reviews_def)
  have a: "map_option ratings_invariant (findById (products demo_reviewed_db) ''p1'') = Some True"
    unfolding f by (simp add: calculateAverageRating_invariant)
  have b: "map_option reviews (findById (products demo_reviewed_db) ''p1'') = Some demo_reviews"
    unfolding f by (simp add: calculateAverageRating_reviews)
  have v: "patch_valid demo_patch" "u_reviews demo_patch = Some []"
    by (simp_all add: patch_valid_def demo_patch_def)
  let ?P = "apply_patch demo_patch
              (calculateAverageRating (demo_product\<lparr>reviews := demo_reviews\<rparr>))"
  have u: "updateProduct demo_reviewed_db ''p1'' demo_patch =
             (product_save demo_reviewed_db ?P,
              \<lparr>status = 200, success = True, message = Some ProductUpdated, data = Some ?P\<rparr>)"
    using f v(1) by (simp add: updateProduct_def)
  have i: "p_id ?P = ''p1''"
    by (simp add: apply_patch_def calculateAverageRating_def Let_def demo_product_def)
  have g: "findById (products (fst (updateProduct demo_reviewed_db ''p1'' demo_patch))) ''p1'' =
             Some ?P"
    unfolding u using findById_product_save[OF f i] by simp
  have r: "reviews ?P = []" "ratings_average ?P = 4" "ratings_count ?P = 3"
    by (simp_all add: apply_patch_def demo_patch_def calculateAverageRating_def Let_def
          demo_reviews_def math_round_40)
  then have n: "\<not> ratings_invariant ?P"
    by (simp add: ratings_invariant_def)
  from a b v(2) u g r n show ?thesis by simp
qed

subsection \<open>Soft delete and the product queries\<close>

lemma set_insert_by: "set (insert_by le x ys) = insert x (set ys)"
  by (induction ys) auto

lemma set_foldr_insert_by: "set (foldr (insert_by le) xs []) = set xs"
  by (induction xs) (simp_all add: set_insert_by)

lemma set_mongo_sort: "set (mongo_sort E f d xs) = set xs"
  by (simp add: mongo_sort_def set_foldr_insert_by)

lemma set_mongo_limit: "set (mongo_limit n xs) \<subseteq> set xs"
  by (simp add: mongo_limit_def set_take_subset)

lemma mongo_find_all: "p \<in> set (mongo_find conds xs) \<Longrightarrow> c \<in> set conds \<Longrightarrow> c p"
  by (auto simp add: mongo_find_def list_all_iff)

lemma isActive_in_filter: "isActive \<in> set (build_filter E q)"
  by (simp add: build_filter_def)

lemma listed_subset:
  "set (listed_products E db q) \<subseteq> set (mongo_find (build_filter E q) (products db))"
proof (cases "(default_to 1 (q_page q) - 1) * default_to 12 (q_limit q) < 0")
  case True
  then show ?thesis
    by (simp add: listed_products_def getProducts_def Let_def failure_def)
next
  case False
  let ?found = "mongo_find (build_filter E q) (products db)"
  let ?sorted = "mongo_sort E (default_to ''createdAt'' (q_sortBy q))
                   (if default_to ''desc'' (q_sortOrder q) = ''desc'' then - 1 else 1) ?found"
  let ?skip = "nat ((default_to 1 (q_page q) - 1) * default_to 12 (q_limit q))"
  from False have "listed_products E db q =
      mongo_limit (default_to 12 (q_limit q)) (drop ?skip ?sorted)"
    by (simp add: listed_products_def getProducts_def Let_def)
  moreover have "set (mongo_limit (default_to 12 (q_limit q)) (drop ?skip ?sorted))
                   \<subseteq> set (drop ?skip ?sorted)"
    by (rule set_mongo_limit)
  moreover have "set (drop ?skip ?sorted) \<subseteq> set ?sorted"
    by (rule set_drop_subset)
  moreover have "set ?sorted = set ?found"
    by (rule set_mongo_sort)
  ultimately show ?thesis by simp
qed

lemma listed_active: "p \<in> set (listed_products E db q) \<Longrightarrow> isActive p"
  using listed_subset[of E db q] mongo_find_all[of p "build_filter E q" "products db" isActive]
    isActive_in_filter[of E q]
  by blast

lemma searched_active: "p \<in> set (searched_products E db s l) \<Longrightarrow> isActive p"
  using set_mongo_limit
  by (fastforce simp add: searched_products_def searchProducts_def Let_def failure_def
        mongo_find_def split: option.splits if_splits)

lemma related_active: "p \<in> set (related_products db i l) \<Longrightarrow> isActive p"
  using set_mongo_limit
  by (fastforce simp add: related_products_def getRelatedProducts_def Let_def failure_def
        mongo_find_def split: option.splits if_splits)


lemma getProduct_found:
  "findById (products db) i = Some P \<Longrightarrow>
   getProduct db i = (db, \<lparr>status = 200, success = True, message = None, data = Some P\<rparr>)"
  by (simp add: getProduct_def)

lemma deleteProduct_found:
  assumes "findById (products db) i = Some P"
  shows "deleteProduct db i =
           (product_save db (P\<lparr>isActive := False\<rparr>),
            \<lparr>status = 200, success = True, message = Some ProductDeleted, data = None\<rparr>)"
    and "p_id P = i"
proof -
  show "deleteProduct db i =
           (product_save db (P\<lparr>isActive := False\<rparr>),
            \<lparr>status = 200, success = True, message = Some ProductDeleted, data = None\<rparr>)"
    using assms by (simp add: deleteProduct_def)
  from assms have "find (\<lambda>p. p_id p = i) (products db) = Some P"
    by (simp add: findById_def)
  then show "p_id P = i" by (rule find_p_id)
qed

lemma saved_inactive_not_active:
  "p \<in> set (products (product_save db (P\<lparr>isActive := False\<rparr>))) \<Longrightarrow> isActive p \<Longrightarrow>
   p_id p \<noteq> p_id P"
  by (auto simp add: product_save_def split: if_splits)

lemma listed_in_products: "p \<in> set (listed_products E db q) \<Longrightarrow> p \<in> set (products db)"
  using listed_subset[of E db q] by (auto simp add: mongo_find_def)

lemma searched_in_products: "p \<in> set (searched_products E db s l) \<Longrightarrow> p \<in> set (products db)"
  using set_mongo_limit
  by (fastforce simp add: searched_products_def searchProducts_def Let_def failure_def
        mongo_find_def split: option.splits if_splits)

lemma related_in_products: "p \<in> set (related_products db i l) \<Longrightarrow> p \<in> set (products db)"
  using set_mongo_limit
  by (fastforce simp add: related_products_def getRelatedProducts_def Let_def failure_def
        mongo_find_def split: option.splits if_splits)


text \<open>
  Claim C9. deleteProduct only sets isActive to false: the stored collection keeps
  every record, the record with the given id differing from before in that flag
  alone. A product is retrievable by getProduct(id) whether it is active or not, so a
  soft-deleted product remains retrievable; and every product in the results of the
  product list, the search and the related-products query is active, so after
  deleteProduct no result carries the deleted id.
\<close>

theorem soft_delete_hides_but_keeps_product:
  "(\<forall>p \<in> set (listed_products E db q). isActive p) \<and>
   (\<forall>p \<in> set (searched_products E db s l). isActive p) \<and>
   (\<forall>p \<in> set (related_products db j l). isActive p) \<and>
   (findById (products db) i = Some P \<longrightarrow>
      getProduct db i =
        (db, \<lparr>status = 200, success = True, message = None, data = Some P\<rparr>) \<and>
      status (snd (deleteProduct db i)) = 200 \<and>
      products (fst (deleteProduct db i)) =
        map (\<lambda>p. if p_id p = i then P\<lparr>isActive := False\<rparr> else p) (products db) \<and>
      length (products (fst (deleteProduct db i))) = length (products db) \<and>
      getProduct (fst (deleteProduct db i)) i =
        (fst (deleteProduct db i),
         \<lparr>status = 200, success = True, message = None,
          data = Some (P\<lparr>isActive := False\<rparr>)\<rparr>) \<and>
      (\<forall>p \<in> set (listed_products E (fst (deleteProduct db i)) q). p_id p \<noteq> i) \<and>
      (\<forall>p \<in> set (searched_products E (fst (deleteProduct db i)) s l). p_id p \<noteq> i) \<and>
      (\<forall>p \<in> set (related_products (fst (deleteProduct db i)) j l). p_id p \<noteq> i))"
proof (intro conjI impI ballI)
  fix p assume "p \<in> set (listed_products E db q)"
  then show "isActive p" by (rule listed_active)
next
  fix p assume "p \<in> set (searched_products E db s l)"
  then show "isActive p" by (rule searched_active)
next
  fix p assume "p \<in> set (related_products db j l)"
  then show "isActive p" by (rule related_active)
next
  assume f: "findById (products db) i = Some P"
  then show "getProduct db i =
        (db, \<lparr>status = 200, success = True, message = None, data = Some P\<rparr>)"
    by (rule getProduct_found)
next
  assume f: "findById (products db) i = Some P"
  show "status (snd (deleteProduct db i)) = 200"
    by (simp add: deleteProduct_found(1)[OF f])
next
  assume f: "findById (products db) i = Some P"
  show "products (fst (deleteProduct db i)) =
        map (\<lambda>p. if p_id p = i then P\<lparr>isActive := False\<rparr> else p) (products db)"
    using deleteProduct_found(2)[OF f]
    by (simp add: deleteProduct_found(1)[OF f] product_save_def)
next
  assume f: "findById (products db) i = Some P"
  show "length (products (fst (deleteProduct db i))) = length (products db)"
    by (simp add: deleteProduct_found(1)[OF f] product_save_def)
next
  assume f: "findById (products db) i = Some P"
  have "p_id (P\<lparr>isActive := False\<rparr>) = i"
    using deleteProduct_found(2)[OF f] by simp
  then have "findById (products (product_save db (P\<lparr>isActive := False\<rparr>))) i =
               Some (P\<lparr>isActive := False\<rparr>)"
    by (rule findById_product_save[OF f])
  then show "getProduct (fst (deleteProduct db i)) i =
        (fst (deleteProduct db i),
         \<lparr>status = 200, success = True, message = None,
          data = Some (P\<lparr>isActive := False\<rparr>)\<rparr>)"
    by (simp add: deleteProduct_found(1)[OF f] getProduct_found)
next
  fix p
  assume f: "findById (products db) i = Some P"
    and a: "p \<in> set (listed_products E (fst (deleteProduct db i)) q)"
  from a have "isActive p" and "p \<in> set (products (fst (deleteProduct db i)))"
    by (rule listed_active, rule listed_in_products)
  then show "p_id p \<noteq> i"
    using saved_inactive_not_active[of p db P] deleteProduct_found(2)[OF f]
    by (simp add: deleteProduct_found(1)[OF f])
next
  fix p
  assume f: "findById (products db) i = Some P"
    and a: "p \<in> set (searched_products E (fst (deleteProduct db i)) s l)"
  from a have "isActive p" and "p \<in> set (products (fst (deleteProduct db i)))"
    by (rule searched_active, rule searched_in_products)
  then show "p_id p \<noteq> i"
    using saved_inactive_not_active[of p db P] deleteProduct_found(2)[OF f]
    by (simp add: deleteProduct_found(1)[OF f])
next
  fix p
  assume f: "findById (products db) i = Some P"
    and a: "p \<in> set (related_products (fst (deleteProduct db i)) j l)"
  from a have "isActive p" and "p \<in> set (products (fst (deleteProduct db i)))"
    by (rule related_active, rule related_in_products)
  then show "p_id p \<noteq> i"
    using saved_inactive_not_active[of p db P] deleteProduct_found(2)[OF f]
    by (simp add: deleteProduct_found(1)[OF f])
qed

lemmas query_defs =
  listed_products_def searched_products_def related_products_def getProducts_def
  searchProducts_def getRelatedProducts_def getProduct_def deleteProduct_def product_save_def
  build_filter_def mongo_find_def mongo_sort_def mongo_limit_def default_to_def truthy_def
  demo_engine_def demo_query_def

theorem soft_delete_hides_but_keeps_product_witness:
  "findById (products demo_db2) ''p1'' = Some demo_product \<and>
   isActive demo_product \<and>
   map p_id (listed_products demo_engine demo_db2 demo_query) = [''p4'', ''p1'', ''p3''] \<and>
   map p_id (products (fst (deleteProduct demo_db2 ''p1''))) = [''p1'', ''p2'', ''p3'', ''p4''] \<and>
   map_option isActive (data (snd (getProduct (fst (deleteProduct demo_db2 ''p1'')) ''p1''))) =
     Some False \<and>
   map p_id (listed_products demo_engine (fst (deleteProduct demo_db2 ''p1'')) demo_query) =
     [''p4'', ''p3''] \<and>
   map p_id (searched_products demo_engine (fst (deleteProduct demo_db2 ''p1''))
               (Some ''Acme'') None) = [''p3'', ''p4''] \<and>
   map p_id (related_products (fst (deleteProduct demo_db2 ''p1'')) ''p3'' None) = [''p4'']"
proof -
  have f: "findById (products demo_db2) ''p1'' = Some demo_product"
    by (simp add: demo_defs)
  have a: "isActive demo_product"
    by (simp add: demo_defs)
  have b: "map p_id (listed_products demo_engine demo_db2 demo_query) = [''p4'', ''p1'', ''p3'']"
    by (simp add: query_defs demo_defs)
  have c: "map p_id (listed_products demo_engine (fst (deleteProduct demo_db2 ''p1'')) demo_query) =
     [''p4'', ''p3'']"
    by (simp add: query_defs demo_defs)
  have d: "map p_id (searched_products demo_engine (fst (deleteProduct demo_db2 ''p1''))
               (Some ''Acme'') None) = [''p3'', ''p4'']"
    by (simp add: query_defs demo_defs)
  have e: "map p_id (related_products (fst (deleteProduct demo_db2 ''p1'')) ''p3'' None) = [''p4'']"
    by (simp add: query_defs demo_defs)
  have t: "getProduct (fst (deleteProduct demo_db2 ''p1'')) ''p1'' =
        (fst (deleteProduct demo_db2 ''p1''),
         \<lparr>status = 200, success = True, message = None,
          data = Some (demo_product\<lparr>isActive := False\<rparr>)\<rparr>)"
    and u: "products (fst (deleteProduct demo_db2 ''p1'')) =
        map (\<lambda>p. if p_id p = ''p1'' then demo_product\<lparr>isActive := False\<rparr> else p)
          (products demo_db2)"
    using f
      soft_delete_hides_but_keeps_product
        [of demo_engine demo_db2 demo_query "Some ''Acme''" None "''p3''" "''p1''" demo_product]
    by blast+
  have h: "map_option isActive
             (data (snd (getProduct (fst (deleteProduct demo_db2 ''p1'')) ''p1''))) = Some False"
    by (simp add: t)
  have k: "map p_id (products (fst (deleteProduct demo_db2 ''p1''))) =
             [''p1'', ''p2'', ''p3'', ''p4'']"
    unfolding u by (simp add: demo_defs)
  from f a b h k c d e show ?thesis by blast
qed

end
